theory Spec2Isabelle
  imports Complex_Main
begin

section \<open>Double values\<close>

text \<open>
  A C \<^verbatim>\<open>double\<close> is modelled without rounding and without overflow: a finite value is
  a real number. The special values of IEEE 754 arithmetic are kept (the two infinities
  and NaN), since the code divides by values that may be zero and compares the result.
  Signed zeros are not distinguished: the only divisors of the source are results of
  \<^verbatim>\<open>fabs\<close> and converted non-negative integers, whose zero is the positive one.
  Where a property is about a value up to rounding (the sums of the transition matrix),
  the rounded operations of the section on rounded arithmetic are used.
\<close>

datatype double = Finite real | PInf | NInf | NaN

fun dneg :: "double \<Rightarrow> double" where
  "dneg (Finite a) = Finite (- a)"
| "dneg PInf = NInf"
| "dneg NInf = PInf"
| "dneg NaN = NaN"

fun dadd :: "double \<Rightarrow> double \<Rightarrow> double" where
  "dadd NaN y = NaN"
| "dadd x NaN = NaN"
| "dadd (Finite a) (Finite b) = Finite (a + b)"
| "dadd PInf NInf = NaN"
| "dadd NInf PInf = NaN"
| "dadd PInf y = PInf"
| "dadd NInf y = NInf"
| "dadd (Finite a) PInf = PInf"
| "dadd (Finite a) NInf = NInf"

definition dsub :: "double \<Rightarrow> double \<Rightarrow> double" where
  "dsub x y = dadd x (dneg y)"

text \<open>The sign of a non-NaN value: \<open>-1\<close>, \<open>0\<close> or \<open>1\<close>.\<close>

fun dsgn :: "double \<Rightarrow> int" where
  "dsgn (Finite a) = (if a < 0 then - 1 else if a = 0 then 0 else 1)"
| "dsgn PInf = 1"
| "dsgn NInf = - 1"
| "dsgn NaN = 0"

definition dinf :: "int \<Rightarrow> double" where
  "dinf s = (if s < 0 then NInf else PInf)"

fun dmul :: "double \<Rightarrow> double \<Rightarrow> double" where
  "dmul NaN y = NaN"
| "dmul x NaN = NaN"
| "dmul (Finite a) (Finite b) = Finite (a * b)"
| "dmul x y = (if dsgn x * dsgn y = 0 then NaN else dinf (dsgn x * dsgn y))"

fun ddiv :: "double \<Rightarrow> double \<Rightarrow> double" where
  "ddiv NaN y = NaN"
| "ddiv x NaN = NaN"
| "ddiv (Finite a) (Finite b) =
     (if b = 0 then (if a = 0 then NaN else dinf (dsgn (Finite a))) else Finite (a / b))"
| "ddiv (Finite a) y = Finite 0"
| "ddiv x (Finite b) = dinf (if b < 0 then - dsgn x else dsgn x)"
| "ddiv x y = NaN"

fun fabs :: "double \<Rightarrow> double" where
  "fabs (Finite a) = Finite \<bar>a\<bar>"
| "fabs PInf = PInf"
| "fabs NInf = PInf"
| "fabs NaN = NaN"

text \<open>The comparison \<^verbatim>\<open><\<close> of C: false whenever an operand is NaN.\<close>

fun dless :: "double \<Rightarrow> double \<Rightarrow> bool" where
  "dless (Finite a) (Finite b) = (a < b)"
| "dless NaN y = False"
| "dless x NaN = False"
| "dless NInf NInf = False"
| "dless NInf y = True"
| "dless x PInf = (x \<noteq> PInf)"
| "dless x y = False"

text \<open>Conversion of a non-negative \<^verbatim>\<open>int\<close> to \<^verbatim>\<open>double\<close>.\<close>

definition double_of_nat :: "nat \<Rightarrow> double" where
  "double_of_nat n = Finite (real n)"

section \<open>Data model\<close>

text \<open>
  The structures are declared in headers of the repository; their fields are the ones the
  functions of \<^verbatim>\<open>serial_gs_pagerank_functions.c\<close> read and write. Page indices and array
  sizes are natural numbers, the iteration counters are integers.
\<close>

record Parameters =
  numberOfPages :: nat
  maxIterations :: int
  realIterations :: int
  convergenceCriterion :: double
  dampingFactor :: double
  verbose :: bool
  history :: bool
  outputFilename :: string
  graphFilename :: string

record CooSparseMatrixElement =
  elementValue :: double
  rowIndex :: nat
  columnIndex :: nat

text \<open>
  The coordinate matrix: the capacity hint it was allocated with (\<^verbatim>\<open>size\<close> in the
  source) and the triples appended so far, in order.
\<close>

record CooSparseMatrix =
  cooSize :: nat
  elements :: "CooSparseMatrixElement list"

record CsrSparseMatrix =
  numberOfNonZeroElements :: nat
  rowCumulativeIndexes :: "nat list"
  columnIndexes :: "nat list"
  csrValues :: "double list"

section \<open>Sparse matrix operations\<close>

text \<open>
  Modelled from the spec: \<^verbatim>\<open>initCooSparseMatrix\<close> and \<^verbatim>\<open>allocMemoryForCoo\<close>
  (\<open>createCoordinateMatrix(capacityHint)\<close>) are defined in the coordinate-matrix file of
  the repository. The builder starts empty; the hint sizes the backing storage.
\<close>

definition initCooSparseMatrix :: "CooSparseMatrix" where
  "initCooSparseMatrix = \<lparr>cooSize = 0, elements = []\<rparr>"

definition allocMemoryForCoo :: "CooSparseMatrix \<Rightarrow> nat \<Rightarrow> CooSparseMatrix" where
  "allocMemoryForCoo m numberOfElements = m\<lparr>cooSize := numberOfElements\<rparr>"

text \<open>
  Modelled from the spec: \<^verbatim>\<open>addElement\<close> (\<open>append(builder, value, row, col)\<close>) is
  defined in the coordinate-matrix file. It appends one triple, without merging
  duplicates, also beyond the capacity hint.
\<close>

definition addElement :: "CooSparseMatrix \<Rightarrow> double \<Rightarrow> nat \<Rightarrow> nat \<Rightarrow> CooSparseMatrix" where
  "addElement m v row col =
     m\<lparr>elements := elements m @ [\<lparr>elementValue = v, rowIndex = row, columnIndex = col\<rparr>]\<rparr>"

text \<open>
  Modelled from the spec: \<^verbatim>\<open>transposeSparseMatrix\<close> (\<open>transpose(builder)\<close>) is defined
  in the coordinate-matrix file. It swaps the row and column fields of every triple.
\<close>

definition transposeSparseMatrix :: "CooSparseMatrix \<Rightarrow> CooSparseMatrix" where
  "transposeSparseMatrix m =
     m\<lparr>elements := map (\<lambda>e. e\<lparr>rowIndex := columnIndex e, columnIndex := rowIndex e\<rparr>)
        (elements m)\<rparr>"

text \<open>
  Modelled from the spec: \<^verbatim>\<open>transformToCSR\<close> (\<open>toCompressed(builder, numberOfPages)\<close>)
  is defined in the sparse-matrix files. It groups the triples by row, keeping their order
  inside a row; the row pointer of row \<open>i\<close> is the number of triples in the rows before
  \<open>i\<close>, so a row without triples has an empty range.
\<close>

definition rowElements :: "CooSparseMatrix \<Rightarrow> nat \<Rightarrow> CooSparseMatrixElement list" where
  "rowElements m i = filter (\<lambda>e. rowIndex e = i) (elements m)"

definition transformToCSR :: "CooSparseMatrix \<Rightarrow> nat \<Rightarrow> CsrSparseMatrix" where
  "transformToCSR m n =
     (let sorted = concat (map (rowElements m) [0..<n])
      in \<lparr>numberOfNonZeroElements = length sorted,
          rowCumulativeIndexes =
            map (\<lambda>i. length (concat (map (rowElements m) [0..<i]))) [0..<n + 1],
          columnIndexes = map columnIndex sorted,
          csrValues = map elementValue sorted\<rparr>)"

text \<open>
  Modelled from the spec: \<^verbatim>\<open>zeroOutRow\<close> and \<^verbatim>\<open>zeroOutColumn\<close> (\<open>zeroRow\<close>,
  \<open>zeroColumn\<close>) are defined in the compressed-matrix file. They make the entries of a
  row, respectively of a column, absent from later products; the storage and the index
  arrays stay as they are, and the stored value of such an entry becomes zero.
\<close>

definition zeroOutRow :: "CsrSparseMatrix \<Rightarrow> nat \<Rightarrow> CsrSparseMatrix" where
  "zeroOutRow m row =
     m\<lparr>csrValues := map (\<lambda>j. if rowCumulativeIndexes m ! row \<le> j \<and>
                              j < rowCumulativeIndexes m ! (row + 1)
                           then Finite 0 else csrValues m ! j) [0..<length (csrValues m)]\<rparr>"

definition zeroOutColumn :: "CsrSparseMatrix \<Rightarrow> nat \<Rightarrow> CsrSparseMatrix" where
  "zeroOutColumn m col =
     m\<lparr>csrValues := map (\<lambda>j. if columnIndexes m ! j = col then Finite 0 else csrValues m ! j)
        [0..<length (csrValues m)]\<rparr>"

text \<open>
  Modelled from the spec: \<^verbatim>\<open>csrSparseMatrixVectorMultiplication\<close>
  (\<open>compressedMatrixVectorProduct\<close>) is defined in the compressed-matrix file. Entry
  \<open>i\<close> of the output is the sum over the entries of row \<open>i\<close> of value times the input at
  the entry's column; a row without entries gives \<open>0\<close>.
\<close>

definition csrSparseMatrixVectorMultiplication ::
  "CsrSparseMatrix \<Rightarrow> double list \<Rightarrow> nat \<Rightarrow> double list" where
  "csrSparseMatrixVectorMultiplication m vector vectorSize =
     map (\<lambda>i. fold (\<lambda>j acc. dadd acc (dmul (csrValues m ! j) (vector ! (columnIndexes m ! j))))
                 [rowCumulativeIndexes m ! i..<rowCumulativeIndexes m ! (i + 1)] (Finite 0))
       [0..<vectorSize]"

text \<open>
  Modelled from the spec: \<^verbatim>\<open>cooSparseMatrixVectorMultiplication\<close>
  (\<open>coordinateMatrixVectorProduct\<close>) is defined in the coordinate-matrix file. Starting
  from the zero vector, every triple adds value times the input at its column to the
  output at its row.
\<close>

definition cooSparseMatrixVectorMultiplication ::
  "CooSparseMatrix \<Rightarrow> double list \<Rightarrow> nat \<Rightarrow> double list" where
  "cooSparseMatrixVectorMultiplication m vector vectorSize =
     fold (\<lambda>e out. out[rowIndex e := dadd (out ! rowIndex e)
                                       (dmul (elementValue e) (vector ! columnIndex e))])
       (elements m) (replicate vectorSize (Finite 0))"

section \<open>Math utilities\<close>

text \<open>\<^verbatim>\<open>vectorNorm\<close>: the first norm of a vector, summed from index \<open>0\<close> upwards.\<close>

definition vectorNorm :: "double list \<Rightarrow> nat \<Rightarrow> double" where
  "vectorNorm vector vectorSize =
     fold (\<lambda>i norm. dadd norm (fabs (vector ! i))) [0..<vectorSize] (Finite 0)"

text \<open>
  \<^verbatim>\<open>calculateNextPagerank\<close>: the product with the transition matrix, the scaling by the
  damping factor, and the addition of the three correction terms, in the order of the C
  expression \<^verbatim>\<open>x += 0.5*normDifference*webUniformProbability + links[i] + converged[i]\<close>.
\<close>

definition calculateNextPagerank ::
  "CsrSparseMatrix \<Rightarrow> double list \<Rightarrow> double list \<Rightarrow> double list \<Rightarrow> nat \<Rightarrow> double
     \<Rightarrow> double list" where
  "calculateNextPagerank transitionMatrix previousPagerankVector
       linksFromConvergedPagesPagerankVector convergedPagerankVector vectorSize damping =
     (let webUniformProbability = ddiv (Finite 1) (double_of_nat vectorSize);
          product = csrSparseMatrixVectorMultiplication transitionMatrix
                      previousPagerankVector vectorSize;
          scaled = map (\<lambda>i. dmul damping (product ! i)) [0..<vectorSize];
          normDifference = dsub (vectorNorm previousPagerankVector vectorSize)
                             (vectorNorm scaled vectorSize)
      in map (\<lambda>i. dadd (scaled ! i)
                     (dadd (dadd (dmul (dmul (Finite (1 / 2)) normDifference)
                                    webUniformProbability)
                              (linksFromConvergedPagesPagerankVector ! i))
                        (convergedPagerankVector ! i)))
           [0..<vectorSize])"

section \<open>The solver\<close>

text \<open>
  The variables of \<^verbatim>\<open>pagerank\<close> that live across iterations: the local ones, and the
  three objects the caller passes by pointer (the transition matrix, the pagerank vector
  and the convergence status). \<^verbatim>\<open>delta\<close> and the previous vector have no initial
  value in the source and are assigned in iteration \<open>0\<close> before they are read; the model
  starts them at zero.
\<close>

record pagerank_state =
  iterations :: int
  delta :: double
  transitionMatrix :: CsrSparseMatrix
  pagerankVector :: "double list"
  previousPagerankVector :: "double list"
  convergedPagerankVector :: "double list"
  linksFromConvergedPagesPagerankVector :: "double list"
  linksFromConvergedPages :: CooSparseMatrix
  convergenceMatrix :: "bool list"
  convergenceStatus :: bool

definition CONVERGENCE_CHECK_ITERATION_PERIOD :: int where
  "CONVERGENCE_CHECK_ITERATION_PERIOD = 3"

definition SPARSITY_INCREASE_ITERATION_PERIOD :: int where
  "SPARSITY_INCREASE_ITERATION_PERIOD = 3"

text \<open>The state before the first iteration (the allocation and initialisation block).\<close>

definition pagerank_init :: "CsrSparseMatrix \<Rightarrow> double list \<Rightarrow> Parameters \<Rightarrow> pagerank_state" where
  "pagerank_init tm pv parameters =
     \<lparr>iterations = 0,
      delta = Finite 0,
      transitionMatrix = tm,
      pagerankVector = pv,
      previousPagerankVector = replicate (numberOfPages parameters) (Finite 0),
      convergedPagerankVector = replicate (numberOfPages parameters) (Finite 0),
      linksFromConvergedPagesPagerankVector = replicate (numberOfPages parameters) (Finite 0),
      linksFromConvergedPages =
        allocMemoryForCoo initCooSparseMatrix (numberOfNonZeroElements tm),
      convergenceMatrix = replicate (numberOfPages parameters) False,
      convergenceStatus = False\<rparr>"

text \<open>
  The periodic convergence check: the difference vector, its norm, and the comparison
  with the convergence criterion.
\<close>

definition pagerankDifference :: "nat \<Rightarrow> double list \<Rightarrow> double list \<Rightarrow> double list" where
  "pagerankDifference n pv previous = map (\<lambda>i. dsub (pv ! i) (previous ! i)) [0..<n]"

definition checkConvergence :: "Parameters \<Rightarrow> pagerank_state \<Rightarrow> pagerank_state" where
  "checkConvergence parameters s =
     (if iterations s mod CONVERGENCE_CHECK_ITERATION_PERIOD = 0 then
        (let d = vectorNorm (pagerankDifference (numberOfPages parameters) (pagerankVector s)
                               (previousPagerankVector s)) (numberOfPages parameters)
         in if dless d (convergenceCriterion parameters)
            then s\<lparr>delta := d, convergenceStatus := True\<rparr>
            else s\<lparr>delta := d\<rparr>)
      else s)"

text \<open>The first loop of the sparsity step: the relative change of page \<open>i\<close>.\<close>

definition difference :: "double list \<Rightarrow> double list \<Rightarrow> nat \<Rightarrow> double" where
  "difference pv previous i =
     ddiv (fabs (dsub (pv ! i) (previous ! i))) (fabs (previous ! i))"

definition newlyConvergedPages :: "Parameters \<Rightarrow> pagerank_state \<Rightarrow> bool list" where
  "newlyConvergedPages parameters s =
     map (\<lambda>i. \<not> convergenceMatrix s ! i \<and>
               dless (difference (pagerankVector s) (previousPagerankVector s) i)
                 (convergenceCriterion parameters))
       [0..<numberOfPages parameters]"

definition markConverged :: "Parameters \<Rightarrow> pagerank_state \<Rightarrow> pagerank_state" where
  "markConverged parameters s =
     (let newly = newlyConvergedPages parameters s
      in s\<lparr>convergenceMatrix :=
             map (\<lambda>i. if newly ! i then True else convergenceMatrix s ! i)
               [0..<numberOfPages parameters],
           convergedPagerankVector :=
             map (\<lambda>i. if newly ! i then pagerankVector s ! i
                       else convergedPagerankVector s ! i)
               [0..<numberOfPages parameters]\<rparr>)"

text \<open>
  The second loop, for one newly converged page \<open>i\<close>: the entries of row \<open>i\<close> whose column
  is a page that has not converged are appended to \<^verbatim>\<open>linksFromConvergedPages\<close>; then row
  and column \<open>i\<close> are zeroed and the vector of the links is built again.
\<close>

definition copyLinks ::
  "CsrSparseMatrix \<Rightarrow> bool list \<Rightarrow> CooSparseMatrix \<Rightarrow> nat \<Rightarrow> CooSparseMatrix" where
  "copyLinks tm converged links i =
     (let rowStartIndex = rowCumulativeIndexes tm ! i;
          rowEndIndex = rowCumulativeIndexes tm ! (i + 1)
      in if rowEndIndex > rowStartIndex then
           fold (\<lambda>j l. let pageLinksTo = columnIndexes tm ! j
                        in if converged ! pageLinksTo = False
                           then addElement l (csrValues tm ! j) i pageLinksTo
                           else l)
             [rowStartIndex..<rowEndIndex] links
         else links)"

definition sparsifyPage ::
  "Parameters \<Rightarrow> bool list \<Rightarrow> nat \<Rightarrow> pagerank_state \<Rightarrow> pagerank_state" where
  "sparsifyPage parameters newly i s =
     (if newly ! i = True then
        (let links = copyLinks (transitionMatrix s) (convergenceMatrix s)
                       (linksFromConvergedPages s) i;
             tm = zeroOutColumn (zeroOutRow (transitionMatrix s) i) i
         in s\<lparr>transitionMatrix := tm,
              linksFromConvergedPages := links,
              linksFromConvergedPagesPagerankVector :=
                cooSparseMatrixVectorMultiplication links (pagerankVector s)
                  (numberOfPages parameters)\<rparr>)
      else s)"

definition increaseSparsity :: "Parameters \<Rightarrow> pagerank_state \<Rightarrow> pagerank_state" where
  "increaseSparsity parameters s =
     (if iterations s \<noteq> 0 \<and> iterations s mod SPARSITY_INCREASE_ITERATION_PERIOD = 0 then
        fold (sparsifyPage parameters (newlyConvergedPages parameters s))
          [0..<numberOfPages parameters] (markConverged parameters s)
      else s)"

text \<open>
  One pass through the body of the \<^verbatim>\<open>do\<close> loop. Writing the history file and printing
  are not modelled.
\<close>

definition nextPagerank :: "Parameters \<Rightarrow> pagerank_state \<Rightarrow> pagerank_state" where
  "nextPagerank parameters s =
     (let previous = map (\<lambda>i. pagerankVector s ! i) [0..<numberOfPages parameters]
      in s\<lparr>previousPagerankVector := previous,
           pagerankVector :=
             calculateNextPagerank (transitionMatrix s) previous
               (linksFromConvergedPagesPagerankVector s) (convergedPagerankVector s)
               (numberOfPages parameters) (dampingFactor parameters)\<rparr>)"

definition pagerank_iteration :: "Parameters \<Rightarrow> pagerank_state \<Rightarrow> pagerank_state" where
  "pagerank_iteration parameters s =
     (let s1 = nextPagerank parameters s;
          s2 = checkConvergence parameters s1;
          s3 = increaseSparsity parameters s2
      in s3\<lparr>iterations := iterations s3 + 1\<rparr>)"

text \<open>The condition of the \<^verbatim>\<open>do ... while\<close>, read after the body.\<close>

definition continueIterations :: "Parameters \<Rightarrow> pagerank_state \<Rightarrow> bool" where
  "continueIterations parameters s =
     (\<not> convergenceStatus s \<and>
      (maxIterations parameters = 0 \<or> iterations s < maxIterations parameters))"

text \<open>
  The loop may run for ever (no iteration limit and no convergence), so it is a partial
  function: \<open>None\<close> is a run that does not return.
\<close>

partial_function (option) pagerank_loop ::
  "Parameters \<Rightarrow> pagerank_state \<Rightarrow> pagerank_state option" where
  "pagerank_loop parameters s =
     (if continueIterations parameters (pagerank_iteration parameters s)
      then pagerank_loop parameters (pagerank_iteration parameters s)
      else Some (pagerank_iteration parameters s))"

text \<open>
  What \<^verbatim>\<open>pagerank\<close> leaves behind: its return value, the objects behind the three
  pointers, and its own copy of the parameters (the structure is passed by value) when
  it returns.
\<close>

record pagerank_result =
  returnValue :: int
  resultMatrix :: CsrSparseMatrix
  resultVector :: "double list"
  resultStatus :: bool
  localParameters :: Parameters

definition pagerank ::
  "CsrSparseMatrix \<Rightarrow> double list \<Rightarrow> Parameters \<Rightarrow> pagerank_result option" where
  "pagerank tm pv parameters =
     (case pagerank_loop parameters (pagerank_init tm pv parameters) of
        None \<Rightarrow> None
      | Some s \<Rightarrow>
          Some \<lparr>returnValue = iterations s,
                resultMatrix = transitionMatrix s,
                resultVector = pagerankVector s,
                resultStatus = convergenceStatus s,
                localParameters = parameters\<lparr>realIterations := iterations s\<rparr>\<rparr>)"

text \<open>
  The caller's variables, and the call
  \<^verbatim>\<open>pagerank(&transitionMatrix, &pagerankVector, &convergenceStatus, parameters)\<close> as the
  signature of \<^verbatim>\<open>pagerank\<close> fixes it: the callee writes through the three pointers, and
  works on a copy of the fourth argument.
\<close>

record caller_frame =
  callerMatrix :: CsrSparseMatrix
  callerVector :: "double list"
  callerStatus :: bool
  callerParameters :: Parameters

definition call_pagerank :: "caller_frame \<Rightarrow> (int \<times> caller_frame) option" where
  "call_pagerank f =
     (case pagerank (callerMatrix f) (callerVector f) (callerParameters f) of
        None \<Rightarrow> None
      | Some r \<Rightarrow>
          Some (returnValue r,
                f\<lparr>callerMatrix := resultMatrix r,
                  callerVector := resultVector r,
                  callerStatus := resultStatus r\<rparr>))"

section \<open>Building the transition matrix\<close>

text \<open>
  \<^verbatim>\<open>generateNormalizedTransitionMatrixFromFile\<close> from the point where the header of the
  file has been read: the edges of the file are a list of pairs of page indices, and the
  edge count of the header is the length of that list.
\<close>

definition maxPageIndex :: "(nat \<times> nat) list \<Rightarrow> nat" where
  "maxPageIndex edges =
     fold (\<lambda>(fileFrom, fileTo) m.
             (let m1 = (if fileFrom > m then fileFrom else m)
              in if fileTo > m1 then fileTo else m1)) edges 0"

definition readEdges :: "(nat \<times> nat) list \<Rightarrow> CooSparseMatrix" where
  "readEdges edges =
     fold (\<lambda>(fileFrom, fileTo) m. addElement m (Finite 1) fileFrom fileTo) edges
       (allocMemoryForCoo initCooSparseMatrix (length edges))"

definition pageOutdegree :: "CooSparseMatrix \<Rightarrow> nat \<Rightarrow> nat \<Rightarrow> nat list" where
  "pageOutdegree tempMatrix numberOfEdges n =
     fold (\<lambda>i deg. (let currentRow = rowIndex (elements tempMatrix ! i)
                     in if currentRow = rowIndex (elements tempMatrix ! i)
                        then deg[currentRow := deg ! currentRow + 1] else deg))
       [0..<numberOfEdges] (replicate n 0)"

definition normalizeRows :: "CooSparseMatrix \<Rightarrow> nat list \<Rightarrow> CooSparseMatrix" where
  "normalizeRows tempMatrix deg =
     tempMatrix\<lparr>elements :=
       map (\<lambda>i. (elements tempMatrix ! i)\<lparr>elementValue :=
                   ddiv (Finite 1) (double_of_nat (deg ! rowIndex (elements tempMatrix ! i)))\<rparr>)
         [0..<cooSize tempMatrix]\<rparr>"

definition generateNormalizedTransitionMatrixFromFile ::
  "(nat \<times> nat) list \<Rightarrow> Parameters \<Rightarrow> CsrSparseMatrix \<times> Parameters" where
  "generateNormalizedTransitionMatrixFromFile edges parameters =
     (let numberOfEdges = length edges;
          tempMatrix = readEdges edges;
          parameters1 = parameters\<lparr>numberOfPages := maxPageIndex edges + 1\<rparr>;
          deg = pageOutdegree tempMatrix numberOfEdges (numberOfPages parameters1);
          normalized = normalizeRows tempMatrix deg;
          transposed = transposeSparseMatrix normalized
      in (transformToCSR transposed (numberOfPages parameters1), parameters1))"

text \<open>\<^verbatim>\<open>initialize\<close>: the matrix, the iteration count at zero, the uniform vector.\<close>

definition initialize ::
  "(nat \<times> nat) list \<Rightarrow> Parameters \<Rightarrow> CsrSparseMatrix \<times> double list \<times> Parameters" where
  "initialize edges parameters =
     (let (tm, parameters1) = generateNormalizedTransitionMatrixFromFile edges parameters;
          parameters2 = parameters1\<lparr>realIterations := 0\<rparr>;
          webUniformProbability = ddiv (Finite 1) (double_of_nat (numberOfPages parameters2))
      in (tm, map (\<lambda>i. webUniformProbability) [0..<numberOfPages parameters2], parameters2))"

section \<open>Example inputs\<close>

text \<open>
  A graph of two pages with the single link \<open>0 \<rightarrow> 1\<close>: its stored (transposed)
  matrix, and the uniform starting vector.
\<close>

definition exampleMatrix :: CsrSparseMatrix where
  "exampleMatrix = \<lparr>numberOfNonZeroElements = 1, rowCumulativeIndexes = [0, 0, 1],
     columnIndexes = [0], csrValues = [Finite 1]\<rparr>"

definition exampleVector :: "double list" where
  "exampleVector = [Finite (1 / 2), Finite (1 / 2)]"

text \<open>
  The parameters as the argument parser leaves them for an iteration limit of one and a
  tolerance of \<open>10\<^sup>-\<^sup>6\<close>, and as \<^verbatim>\<open>initialize\<close> leaves them for the example graph.
\<close>

definition exampleInput :: Parameters where
  "exampleInput = \<lparr>numberOfPages = 0, maxIterations = 1, realIterations = 0,
     convergenceCriterion = Finite (1 / 1000000), dampingFactor = Finite (17 / 20),
     verbose = False, history = False, outputFilename = ''pagerank_output'',
     graphFilename = ''graph''\<rparr>"

definition exampleParameters :: Parameters where
  "exampleParameters = exampleInput\<lparr>numberOfPages := 2\<rparr>"

text \<open>The caller's variables after \<^verbatim>\<open>initialize\<close> has read the example graph.\<close>

definition exampleFrame :: caller_frame where
  "exampleFrame =
     (case initialize [(0, 1)] exampleInput of
        (tm, pv, parameters) \<Rightarrow>
          \<lparr>callerMatrix = tm, callerVector = pv, callerStatus = False,
           callerParameters = parameters\<rparr>)"

text \<open>
  The state of a run after \<open>t\<close> passes through the loop body (whether or not the loop
  would have stopped before).
\<close>

definition stateAfter :: "Parameters \<Rightarrow> CsrSparseMatrix \<Rightarrow> double list \<Rightarrow> nat \<Rightarrow> pagerank_state" where
  "stateAfter p tm pv t = (pagerank_iteration p ^^ t) (pagerank_init tm pv p)"

text \<open>
  The example with no iteration limit and a tolerance of \<open>0.3\<close>: the first check does not
  declare convergence, and at iteration \<open>3\<close> page \<open>0\<close> converges.
\<close>

definition exampleTolerant :: Parameters where
  "exampleTolerant = exampleParameters\<lparr>maxIterations := 0, convergenceCriterion := Finite (3 / 10)\<rparr>"

text \<open>A state at iteration \<open>3\<close> in which the rank of page \<open>0\<close> is zero.\<close>

definition zeroRankState :: pagerank_state where
  "zeroRankState =
     (pagerank_init exampleMatrix [Finite 0, Finite 1] exampleTolerant)\<lparr>iterations := 3\<rparr>"

text \<open>
  The states of the example run are written with this shorthand: the iteration count,
  \<open>delta\<close>, the stored value of the only matrix entry, the current, previous and
  converged rank vectors, the convergence flags and the global status.
\<close>

definition exampleState ::
  "int \<Rightarrow> double \<Rightarrow> double \<Rightarrow> double list \<Rightarrow> double list \<Rightarrow> double list \<Rightarrow> bool list \<Rightarrow> bool
     \<Rightarrow> pagerank_state" where
  "exampleState n d v pv previous converged flags status =
     \<lparr>iterations = n, delta = d, transitionMatrix = exampleMatrix\<lparr>csrValues := [v]\<rparr>,
      pagerankVector = pv, previousPagerankVector = previous,
      convergedPagerankVector = converged,
      linksFromConvergedPagesPagerankVector = [Finite 0, Finite 0],
      linksFromConvergedPages = \<lparr>cooSize = 1, elements = []\<rparr>,
      convergenceMatrix = flags, convergenceStatus = status\<rparr>"

definition exampleState0 :: pagerank_state where
  "exampleState0 = exampleState 0 (Finite 0) (Finite 1) exampleVector [Finite 0, Finite 0]
     [Finite 0, Finite 0] [False, False] False"

definition exampleState1 :: pagerank_state where
  "exampleState1 = exampleState 1 (Finite (17 / 40)) (Finite 1)
     [Finite (23 / 160), Finite (91 / 160)] exampleVector
     [Finite 0, Finite 0] [False, False] False"

definition exampleState2 :: pagerank_state where
  "exampleState2 = exampleState 2 (Finite (17 / 40)) (Finite 1)
     [Finite (1889 / 12800), Finite (3453 / 12800)] [Finite (23 / 160), Finite (91 / 160)]
     [Finite 0, Finite 0] [False, False] False"

definition exampleState3 :: pagerank_state where
  "exampleState3 = exampleState 3 (Finite (17 / 40)) (Finite 1)
     [Finite (74727 / 1024000), Finite (203179 / 1024000)]
     [Finite (1889 / 12800), Finite (3453 / 12800)]
     [Finite 0, Finite 0] [False, False] False"

definition exampleState4 :: pagerank_state where
  "exampleState4 = exampleState 4 (Finite (4287761 / 40960000)) (Finite 0)
     [Finite (4287761 / 81920000), Finite (9369197 / 81920000)]
     [Finite (74727 / 1024000), Finite (203179 / 1024000)]
     [Finite (4287761 / 81920000), Finite 0] [True, False] True"

definition exampleState5 :: pagerank_state where
  "exampleState5 = exampleState 5 (Finite (4287761 / 40960000)) (Finite 0)
     [Finite (15404001 / 163840000), Finite (6828479 / 163840000)]
     [Finite (4287761 / 81920000), Finite (9369197 / 81920000)]
     [Finite (4287761 / 81920000), Finite 0] [True, False] True"

text \<open>
  A graph of three pages with the links \<open>1 \<rightarrow> 0\<close>, \<open>2 \<rightarrow> 0\<close>, \<open>0 \<rightarrow> 1\<close> and
  \<open>1 \<rightarrow> 2\<close>, and a state at iteration \<open>3\<close>, after the update and before the sparsity
  step, in which pages \<open>0\<close> and \<open>1\<close> have not moved and page \<open>2\<close> has.
\<close>

definition triangleEdges :: "(nat \<times> nat) list" where
  "triangleEdges = [(1, 0), (2, 0), (0, 1), (1, 2)]"

definition triangleMatrix :: CsrSparseMatrix where
  "triangleMatrix = \<lparr>numberOfNonZeroElements = 4, rowCumulativeIndexes = [0, 2, 3, 4],
     columnIndexes = [1, 2, 0, 1],
     csrValues = [Finite (1 / 2), Finite 1, Finite 1, Finite (1 / 2)]\<rparr>"

definition triangleParameters :: Parameters where
  "triangleParameters = exampleInput\<lparr>numberOfPages := 3, maxIterations := 0,
     convergenceCriterion := Finite (1 / 10)\<rparr>"

definition triangleState :: pagerank_state where
  "triangleState =
     (pagerank_init triangleMatrix [Finite (1 / 2), Finite (1 / 4), Finite (1 / 4)]
        triangleParameters)
       \<lparr>iterations := 3,
        previousPagerankVector := [Finite (1 / 2), Finite (1 / 4), Finite (1 / 8)]\<rparr>"

section \<open>Row and column sums of a stored matrix\<close>

text \<open>
  The sum of the stored entries of row \<open>i\<close>, and the sum of the stored entries whose
  column is \<open>c\<close>. These follow the words of the specification (sums over the entries of
  the compressed matrix), not a function of the source.
\<close>

definition csrRowSum :: "CsrSparseMatrix \<Rightarrow> nat \<Rightarrow> double" where
  "csrRowSum m i =
     fold (\<lambda>j acc. dadd acc (csrValues m ! j))
       [rowCumulativeIndexes m ! i..<rowCumulativeIndexes m ! (i + 1)] (Finite 0)"

definition csrColumnSum :: "CsrSparseMatrix \<Rightarrow> nat \<Rightarrow> double" where
  "csrColumnSum m c =
     fold (\<lambda>j acc. if columnIndexes m ! j = c then dadd acc (csrValues m ! j) else acc)
       [0..<numberOfNonZeroElements m] (Finite 0)"

text \<open>A graph of three pages in which page \<open>0\<close> links to pages \<open>1\<close> and \<open>2\<close>.\<close>

definition forkEdges :: "(nat \<times> nat) list" where
  "forkEdges = [(0, 1), (0, 2)]"

text \<open>The triple that reading the edge \<open>e\<close> of the file appends.\<close>

definition edgeElement :: "nat \<times> nat \<Rightarrow> CooSparseMatrixElement" where
  "edgeElement e = \<lparr>elementValue = Finite 1, rowIndex = fst e, columnIndex = snd e\<rparr>"

section \<open>Rounded arithmetic\<close>

text \<open>
  The operations of the machine round the exact result to a double. Here a finite exact
  result is passed through a rounding function \<open>rnd\<close>; the infinities and NaN stay as
  they are. The theorems about these operations take \<open>rnd\<close> as a parameter and assume
  only a bound on its relative error.
\<close>

definition roundResult :: "(real \<Rightarrow> real) \<Rightarrow> double \<Rightarrow> double" where
  "roundResult rnd x = (case x of Finite a \<Rightarrow> Finite (rnd a) | _ \<Rightarrow> x)"

definition daddRounded :: "(real \<Rightarrow> real) \<Rightarrow> double \<Rightarrow> double \<Rightarrow> double" where
  "daddRounded rnd x y = roundResult rnd (dadd x y)"

definition ddivRounded :: "(real \<Rightarrow> real) \<Rightarrow> double \<Rightarrow> double \<Rightarrow> double" where
  "ddivRounded rnd x y = roundResult rnd (ddiv x y)"

text \<open>
  The normalisation of \<^verbatim>\<open>generateNormalizedTransitionMatrixFromFile\<close> and the function
  itself, with the quotient \<^verbatim>\<open>1./pageOutdegree[...]\<close> rounded. With the identity as
  rounding function they are \<open>normalizeRows\<close> and
  \<open>generateNormalizedTransitionMatrixFromFile\<close>.
\<close>

definition normalizeRowsRounded ::
  "(real \<Rightarrow> real) \<Rightarrow> CooSparseMatrix \<Rightarrow> nat list \<Rightarrow> CooSparseMatrix" where
  "normalizeRowsRounded rnd tempMatrix deg =
     tempMatrix\<lparr>elements :=
       map (\<lambda>i. (elements tempMatrix ! i)\<lparr>elementValue :=
                   ddivRounded rnd (Finite 1)
                     (double_of_nat (deg ! rowIndex (elements tempMatrix ! i)))\<rparr>)
         [0..<cooSize tempMatrix]\<rparr>"

definition generateNormalizedTransitionMatrixRounded ::
  "(real \<Rightarrow> real) \<Rightarrow> (nat \<times> nat) list \<Rightarrow> Parameters \<Rightarrow> CsrSparseMatrix \<times> Parameters" where
  "generateNormalizedTransitionMatrixRounded rnd edges parameters =
     (let numberOfEdges = length edges;
          tempMatrix = readEdges edges;
          parameters1 = parameters\<lparr>numberOfPages := maxPageIndex edges + 1\<rparr>;
          deg = pageOutdegree tempMatrix numberOfEdges (numberOfPages parameters1);
          normalized = normalizeRowsRounded rnd tempMatrix deg;
          transposed = transposeSparseMatrix normalized
      in (transformToCSR transposed (numberOfPages parameters1), parameters1))"

text \<open>
  The sum of the stored entries of column \<open>c\<close>, accumulated from the first stored entry
  to the last with a rounded addition.
\<close>

definition csrColumnSumRounded :: "(real \<Rightarrow> real) \<Rightarrow> CsrSparseMatrix \<Rightarrow> nat \<Rightarrow> double" where
  "csrColumnSumRounded rnd m c =
     fold (\<lambda>j acc. if columnIndexes m ! j = c then daddRounded rnd acc (csrValues m ! j)
                    else acc)
       [0..<numberOfNonZeroElements m] (Finite 0)"

text \<open>The number of links that leave page \<open>c\<close> in an edge list.\<close>

definition outDegree :: "(nat \<times> nat) list \<Rightarrow> nat \<Rightarrow> nat" where
  "outDegree edges c = length (filter (\<lambda>e. fst e = c) edges)"

text \<open>A rounding function whose relative error is one hundredth, for the examples.\<close>

definition exampleRounding :: "real \<Rightarrow> real" where
  "exampleRounding x = x * (101 / 100)"

section \<open>Properties of the arithmetic\<close>


lemma dadd_commute: "dadd a b = dadd b a"
  by (cases a; cases b) simp_all

lemma upt_0_2: "[0..<2] = [0, Suc 0]"
  by (simp add: numeral_2_eq_2)

text \<open>On a vector of finite values, \<^verbatim>\<open>vectorNorm\<close> is the sum of the absolute values.\<close>

lemma vectorNorm_finite:
  assumes "\<forall>i<n. v ! i = Finite (r i)"
  shows "vectorNorm v n = Finite (\<Sum>i<n. \<bar>r i\<bar>)"
  using assms
proof (induction n)
  case 0
  show ?case by (simp add: vectorNorm_def)
next
  case (Suc n)
  then have "vectorNorm v n = Finite (\<Sum>i<n. \<bar>r i\<bar>)" and "v ! n = Finite (r n)"
    by simp_all
  then show ?case by (simp add: vectorNorm_def)
qed

section \<open>What an iteration leaves unchanged\<close>

lemma sparsifyPage_keeps:
  "iterations (sparsifyPage p nw i s) = iterations s"
  "delta (sparsifyPage p nw i s) = delta s"
  "pagerankVector (sparsifyPage p nw i s) = pagerankVector s"
  "previousPagerankVector (sparsifyPage p nw i s) = previousPagerankVector s"
  "convergedPagerankVector (sparsifyPage p nw i s) = convergedPagerankVector s"
  "convergenceMatrix (sparsifyPage p nw i s) = convergenceMatrix s"
  "convergenceStatus (sparsifyPage p nw i s) = convergenceStatus s"
  by (simp_all add: sparsifyPage_def Let_def)

lemma fold_sparsifyPage_keeps:
  "iterations (fold (sparsifyPage p nw) xs s) = iterations s"
  "delta (fold (sparsifyPage p nw) xs s) = delta s"
  "pagerankVector (fold (sparsifyPage p nw) xs s) = pagerankVector s"
  "previousPagerankVector (fold (sparsifyPage p nw) xs s) = previousPagerankVector s"
  "convergedPagerankVector (fold (sparsifyPage p nw) xs s) = convergedPagerankVector s"
  "convergenceMatrix (fold (sparsifyPage p nw) xs s) = convergenceMatrix s"
  "convergenceStatus (fold (sparsifyPage p nw) xs s) = convergenceStatus s"
  by (induction xs arbitrary: s) (simp_all add: sparsifyPage_keeps)

lemma markConverged_keeps:
  "iterations (markConverged p s) = iterations s"
  "delta (markConverged p s) = delta s"
  "pagerankVector (markConverged p s) = pagerankVector s"
  "previousPagerankVector (markConverged p s) = previousPagerankVector s"
  "convergenceStatus (markConverged p s) = convergenceStatus s"
  "transitionMatrix (markConverged p s) = transitionMatrix s"
  "linksFromConvergedPages (markConverged p s) = linksFromConvergedPages s"
  by (simp_all add: markConverged_def Let_def)

lemma increaseSparsity_keeps:
  "iterations (increaseSparsity p s) = iterations s"
  "delta (increaseSparsity p s) = delta s"
  "pagerankVector (increaseSparsity p s) = pagerankVector s"
  "previousPagerankVector (increaseSparsity p s) = previousPagerankVector s"
  "convergenceStatus (increaseSparsity p s) = convergenceStatus s"
  by (simp_all add: increaseSparsity_def fold_sparsifyPage_keeps markConverged_keeps)

lemma checkConvergence_keeps:
  "iterations (checkConvergence p s) = iterations s"
  "pagerankVector (checkConvergence p s) = pagerankVector s"
  "previousPagerankVector (checkConvergence p s) = previousPagerankVector s"
  "convergedPagerankVector (checkConvergence p s) = convergedPagerankVector s"
  "convergenceMatrix (checkConvergence p s) = convergenceMatrix s"
  "transitionMatrix (checkConvergence p s) = transitionMatrix s"
  "linksFromConvergedPages (checkConvergence p s) = linksFromConvergedPages s"
  by (simp_all add: checkConvergence_def Let_def)

lemma nextPagerank_keeps:
  "iterations (nextPagerank p s) = iterations s"
  "delta (nextPagerank p s) = delta s"
  "convergenceStatus (nextPagerank p s) = convergenceStatus s"
  "convergedPagerankVector (nextPagerank p s) = convergedPagerankVector s"
  "convergenceMatrix (nextPagerank p s) = convergenceMatrix s"
  "transitionMatrix (nextPagerank p s) = transitionMatrix s"
  "linksFromConvergedPages (nextPagerank p s) = linksFromConvergedPages s"
  by (simp_all add: nextPagerank_def Let_def)

lemma pagerank_iteration_iterations:
  "iterations (pagerank_iteration p s) = iterations s + 1"
  by (simp add: pagerank_iteration_def Let_def increaseSparsity_keeps checkConvergence_keeps
      nextPagerank_keeps)

lemma pagerank_iteration_vectors:
  "pagerankVector (pagerank_iteration p s) = pagerankVector (nextPagerank p s)"
  "previousPagerankVector (pagerank_iteration p s) = previousPagerankVector (nextPagerank p s)"
  by (simp_all add: pagerank_iteration_def Let_def increaseSparsity_keeps checkConvergence_keeps)

lemma pagerank_iteration_status:
  "convergenceStatus (pagerank_iteration p s) = convergenceStatus (checkConvergence p (nextPagerank p s))"
  "delta (pagerank_iteration p s) = delta (checkConvergence p (nextPagerank p s))"
  by (simp_all add: pagerank_iteration_def Let_def increaseSparsity_keeps)

lemma pagerank_loop_iterate:
  assumes "\<not> continueIterations p ((pagerank_iteration p ^^ Suc k) s)"
    and "\<forall>j<k. continueIterations p ((pagerank_iteration p ^^ Suc j) s)"
  shows "pagerank_loop p s = Some ((pagerank_iteration p ^^ Suc k) s)"
  using assms
proof (induction k arbitrary: s)
  case 0
  then show ?case by (subst pagerank_loop.simps) simp
next
  case (Suc k)
  from Suc.prems(2) have c: "continueIterations p (pagerank_iteration p s)"
    by (auto dest: spec [of _ 0])
  have a: "\<not> continueIterations p ((pagerank_iteration p ^^ Suc k) (pagerank_iteration p s))"
    using Suc.prems(1) by (simp add: funpow_swap1)
  have b: "\<forall>j<k. continueIterations p ((pagerank_iteration p ^^ Suc j) (pagerank_iteration p s))"
  proof (intro allI impI)
    fix j assume "j < k"
    then have "continueIterations p ((pagerank_iteration p ^^ Suc (Suc j)) s)"
      using Suc.prems(2) [rule_format, of "Suc j"] by simp
    then show "continueIterations p ((pagerank_iteration p ^^ Suc j) (pagerank_iteration p s))"
      by (simp add: funpow_swap1)
  qed
  have "pagerank_loop p s = pagerank_loop p (pagerank_iteration p s)"
    using c by (subst pagerank_loop.simps) simp
  also have "\<dots> = Some ((pagerank_iteration p ^^ Suc k) (pagerank_iteration p s))"
    by (rule Suc.IH [OF a b])
  finally show ?case by (simp add: funpow_swap1)
qed

lemma pagerank_loop_run:
  assumes "pagerank_loop p s = Some r"
  shows "\<exists>k. r = (pagerank_iteration p ^^ Suc k) s \<and>
             \<not> continueIterations p ((pagerank_iteration p ^^ Suc k) s) \<and>
             (\<forall>j<k. continueIterations p ((pagerank_iteration p ^^ Suc j) s))"
proof -
  let ?R = "\<lambda>p s r. \<exists>k. r = (pagerank_iteration p ^^ Suc k) s \<and>
             \<not> continueIterations p ((pagerank_iteration p ^^ Suc k) s) \<and>
             (\<forall>j<k. continueIterations p ((pagerank_iteration p ^^ Suc j) s))"
  show "?R p s r"
  proof (rule pagerank_loop.raw_induct [where P = ?R, OF _ assms])
    fix loop p s r
    assume IH: "\<And>p s r. loop p s = Some r \<Longrightarrow> ?R p s r"
      and eq: "(if continueIterations p (pagerank_iteration p s)
                then loop p (pagerank_iteration p s)
                else Some (pagerank_iteration p s)) = Some r"
    show "?R p s r"
    proof (cases "continueIterations p (pagerank_iteration p s)")
      case False
      with eq have "r = pagerank_iteration p s" by simp
      with False show ?thesis by (intro exI [of _ 0]) simp
    next
      case True
      with eq have "loop p (pagerank_iteration p s) = Some r" by simp
      from IH [OF this] obtain k where
        k: "r = (pagerank_iteration p ^^ Suc k) (pagerank_iteration p s)"
           "\<not> continueIterations p ((pagerank_iteration p ^^ Suc k) (pagerank_iteration p s))"
           "\<forall>j<k. continueIterations p ((pagerank_iteration p ^^ Suc j) (pagerank_iteration p s))"
        by blast
      have "\<forall>j<Suc k. continueIterations p ((pagerank_iteration p ^^ Suc j) s)"
      proof (intro allI impI)
        fix j assume j: "j < Suc k"
        show "continueIterations p ((pagerank_iteration p ^^ Suc j) s)"
        proof (cases j)
          case 0
          with True show ?thesis by simp
        next
          case (Suc j')
          with j k(3) have
            "continueIterations p ((pagerank_iteration p ^^ Suc j') (pagerank_iteration p s))"
            by simp
          with Suc show ?thesis by (simp add: funpow_swap1)
        qed
      qed
      moreover have "r = (pagerank_iteration p ^^ Suc (Suc k)) s"
        using k(1) by (simp add: funpow_swap1)
      moreover have "\<not> continueIterations p ((pagerank_iteration p ^^ Suc (Suc k)) s)"
        using k(2) by (simp add: funpow_swap1)
      ultimately show ?thesis by blast
    qed
  qed
qed

lemma pagerank_loop_maxIterations_1:
  assumes "maxIterations p = 1" and "iterations s = 0"
  shows "pagerank_loop p s = Some (pagerank_iteration p s)"
  using assms
  by (subst pagerank_loop.simps) (simp add: continueIterations_def pagerank_iteration_iterations)

section \<open>The update of one iteration\<close>



section \<open>The iteration loop\<close>

lemma funpow_iterations:
  "iterations ((pagerank_iteration p ^^ k) s) = iterations s + int k"
  by (induction k) (simp_all add: pagerank_iteration_iterations)

lemma pagerank_maxIterations_1:
  assumes "maxIterations p = 1"
  shows "pagerank tm pv p =
    Some \<lparr>returnValue = 1,
          resultMatrix = transitionMatrix (pagerank_iteration p (pagerank_init tm pv p)),
          resultVector = pagerankVector (pagerank_iteration p (pagerank_init tm pv p)),
          resultStatus = convergenceStatus (pagerank_iteration p (pagerank_init tm pv p)),
          localParameters = p\<lparr>realIterations := 1\<rparr>\<rparr>"
proof -
  have "iterations (pagerank_init tm pv p) = 0" by (simp add: pagerank_init_def)
  from pagerank_loop_maxIterations_1 [OF assms this] this show ?thesis
    by (simp add: pagerank_def pagerank_iteration_iterations)
qed

text \<open>The first pass of the example run with an iteration limit of one.\<close>

lemma example_first_iteration:
  "pagerank_iteration exampleParameters (pagerank_init exampleMatrix exampleVector exampleParameters)
     = exampleState1"
  by code_simp

text \<open>
  Claim C4. The loop goes on exactly while global convergence has not been declared and
  the iteration limit is zero or not yet reached: a run returns \<open>r\<close> exactly when \<open>r\<close> is
  the state after some number \<open>k + 1\<close> of iterations, the condition fails there, and it
  held after each of the iterations before; the solver returns what the loop leaves, with
  the iteration count as its return value. With an iteration limit of one the solver
  performs exactly one iteration, whatever the tolerance: its result is the state after
  the first pass through the loop body, and it returns the count \<open>1\<close>.
\<close>

theorem pagerank_loop_condition:
  "(pagerank_loop p s = Some r \<longleftrightarrow>
      (\<exists>k. r = (pagerank_iteration p ^^ Suc k) s \<and> iterations r = iterations s + int (Suc k) \<and>
           \<not> (\<not> convergenceStatus r \<and>
              (maxIterations p = 0 \<or> iterations r < maxIterations p)) \<and>
           (\<forall>j<k. \<not> convergenceStatus ((pagerank_iteration p ^^ Suc j) s) \<and>
              (maxIterations p = 0 \<or>
               iterations ((pagerank_iteration p ^^ Suc j) s) < maxIterations p)))) \<and>
   pagerank tm pv p =
     map_option
       (\<lambda>s. \<lparr>returnValue = iterations s, resultMatrix = transitionMatrix s,
              resultVector = pagerankVector s, resultStatus = convergenceStatus s,
              localParameters = p\<lparr>realIterations := iterations s\<rparr>\<rparr>)
       (pagerank_loop p (pagerank_init tm pv p)) \<and>
   (maxIterations p = 1 \<longrightarrow>
      pagerank_loop p (pagerank_init tm pv p) =
        Some (pagerank_iteration p (pagerank_init tm pv p)) \<and>
      pagerank tm pv p =
        Some \<lparr>returnValue = 1,
              resultMatrix = transitionMatrix (pagerank_iteration p (pagerank_init tm pv p)),
              resultVector = pagerankVector (pagerank_iteration p (pagerank_init tm pv p)),
              resultStatus = convergenceStatus (pagerank_iteration p (pagerank_init tm pv p)),
              localParameters = p\<lparr>realIterations := 1\<rparr>\<rparr>)"
proof (intro conjI iffI impI)
  assume "pagerank_loop p s = Some r"
  from pagerank_loop_run [OF this] obtain k where
    k: "r = (pagerank_iteration p ^^ Suc k) s"
       "\<not> continueIterations p ((pagerank_iteration p ^^ Suc k) s)"
       "\<forall>j<k. continueIterations p ((pagerank_iteration p ^^ Suc j) s)"
    by blast
  have "iterations r = iterations s + int (Suc k)"
    unfolding k(1) by (rule funpow_iterations)
  with k show "\<exists>k. r = (pagerank_iteration p ^^ Suc k) s \<and> iterations r = iterations s + int (Suc k) \<and>
           \<not> (\<not> convergenceStatus r \<and>
              (maxIterations p = 0 \<or> iterations r < maxIterations p)) \<and>
           (\<forall>j<k. \<not> convergenceStatus ((pagerank_iteration p ^^ Suc j) s) \<and>
              (maxIterations p = 0 \<or>
               iterations ((pagerank_iteration p ^^ Suc j) s) < maxIterations p))"
    unfolding continueIterations_def by blast
next
  assume "\<exists>k. r = (pagerank_iteration p ^^ Suc k) s \<and> iterations r = iterations s + int (Suc k) \<and>
           \<not> (\<not> convergenceStatus r \<and>
              (maxIterations p = 0 \<or> iterations r < maxIterations p)) \<and>
           (\<forall>j<k. \<not> convergenceStatus ((pagerank_iteration p ^^ Suc j) s) \<and>
              (maxIterations p = 0 \<or>
               iterations ((pagerank_iteration p ^^ Suc j) s) < maxIterations p))"
  then obtain k where
    k: "r = (pagerank_iteration p ^^ Suc k) s"
       "\<not> continueIterations p ((pagerank_iteration p ^^ Suc k) s)"
       "\<forall>j<k. continueIterations p ((pagerank_iteration p ^^ Suc j) s)"
    unfolding continueIterations_def by blast
  from pagerank_loop_iterate [OF k(2,3)] k(1) show "pagerank_loop p s = Some r" by simp
next
  show "pagerank tm pv p =
     map_option
       (\<lambda>s. \<lparr>returnValue = iterations s, resultMatrix = transitionMatrix s,
              resultVector = pagerankVector s, resultStatus = convergenceStatus s,
              localParameters = p\<lparr>realIterations := iterations s\<rparr>\<rparr>)
       (pagerank_loop p (pagerank_init tm pv p))"
    by (simp add: pagerank_def split: option.splits)
next
  assume m: "maxIterations p = 1"
  show "pagerank_loop p (pagerank_init tm pv p) =
        Some (pagerank_iteration p (pagerank_init tm pv p))"
    by (rule pagerank_loop_maxIterations_1 [OF m]) (simp add: pagerank_init_def)
  show "pagerank tm pv p =
        Some \<lparr>returnValue = 1,
              resultMatrix = transitionMatrix (pagerank_iteration p (pagerank_init tm pv p)),
              resultVector = pagerankVector (pagerank_iteration p (pagerank_init tm pv p)),
              resultStatus = convergenceStatus (pagerank_iteration p (pagerank_init tm pv p)),
              localParameters = p\<lparr>realIterations := 1\<rparr>\<rparr>"
    by (rule pagerank_maxIterations_1 [OF m])
qed

theorem pagerank_loop_condition_witness:
  "maxIterations exampleParameters = 1 \<and>
   pagerank_loop exampleParameters (pagerank_init exampleMatrix exampleVector exampleParameters) =
     Some exampleState1 \<and>
   pagerank exampleMatrix exampleVector exampleParameters =
     Some \<lparr>returnValue = 1, resultMatrix = exampleMatrix,
           resultVector = [Finite (23 / 160), Finite (91 / 160)], resultStatus = False,
           localParameters = exampleParameters\<lparr>realIterations := 1\<rparr>\<rparr>"
proof -
  let ?s0 = "pagerank_init exampleMatrix exampleVector exampleParameters"
  have m: "maxIterations exampleParameters = 1"
    by (simp add: exampleParameters_def exampleInput_def)
  from pagerank_loop_condition [of exampleParameters ?s0
      "pagerank_iteration exampleParameters ?s0" exampleMatrix exampleVector] m
  have l: "pagerank_loop exampleParameters ?s0 = Some (pagerank_iteration exampleParameters ?s0)"
    and r: "pagerank exampleMatrix exampleVector exampleParameters =
        Some \<lparr>returnValue = 1,
              resultMatrix = transitionMatrix (pagerank_iteration exampleParameters ?s0),
              resultVector = pagerankVector (pagerank_iteration exampleParameters ?s0),
              resultStatus = convergenceStatus (pagerank_iteration exampleParameters ?s0),
              localParameters = exampleParameters\<lparr>realIterations := 1\<rparr>\<rparr>"
    by blast+
  from m l r show ?thesis
    unfolding example_first_iteration
    by (simp add: exampleState1_def exampleState_def exampleMatrix_def)
qed

section \<open>The iteration count and the caller\<close>

lemma initialize_example:
  "initialize [(0, 1)] exampleInput = (exampleMatrix, exampleVector, exampleParameters)"
  by code_simp


lemma call_pagerank_parameters:
  "call_pagerank f = Some (n, f') \<Longrightarrow> callerParameters f' = callerParameters f"
  by (auto simp: call_pagerank_def split: option.splits)

text \<open>
  Claim C1. When the solver terminates, the \<open>realIterations\<close> field of the parameters
  that the caller observes should be the number of completed iterations. The solver
  receives the structure by value and stores the count in its own copy: on the example,
  with an iteration limit of one, the call returns \<open>1\<close> and the caller's field is still
  the \<open>0\<close> that \<^verbatim>\<open>initialize\<close> stored.
\<close>

theorem realIterations_not_visible:
  "map_option (\<lambda>(n, f). (n, realIterations (callerParameters f))) (call_pagerank exampleFrame)
     = Some (1, 0)"
proof -
  have m: "maxIterations exampleParameters = 1"
    by (simp add: exampleParameters_def exampleInput_def)
  have f: "exampleFrame = \<lparr>callerMatrix = exampleMatrix, callerVector = exampleVector,
      callerStatus = False, callerParameters = exampleParameters\<rparr>"
    unfolding exampleFrame_def initialize_example by simp
  show ?thesis
    by (simp add: call_pagerank_def f pagerank_maxIterations_1 [OF m])
       (simp add: exampleParameters_def exampleInput_def)
qed

section \<open>The example run\<close>


lemma example_init:
  "pagerank_init exampleMatrix exampleVector exampleTolerant = exampleState0"
  by code_simp

lemma example_step_0: "pagerank_iteration exampleTolerant exampleState0 = exampleState1"
  by code_simp

lemma example_step_1: "pagerank_iteration exampleTolerant exampleState1 = exampleState2"
  by code_simp

lemma example_step_2: "pagerank_iteration exampleTolerant exampleState2 = exampleState3"
  by code_simp

lemma example_step_3: "pagerank_iteration exampleTolerant exampleState3 = exampleState4"
  by code_simp

lemma example_step_4: "pagerank_iteration exampleTolerant exampleState4 = exampleState5"
  by code_simp

lemma stateAfter_0: "stateAfter p tm pv 0 = pagerank_init tm pv p"
  by (simp add: stateAfter_def)

lemma stateAfter_Suc: "stateAfter p tm pv (Suc t) = pagerank_iteration p (stateAfter p tm pv t)"
  by (simp add: stateAfter_def)

lemma stateAfter_example:
  "stateAfter exampleTolerant exampleMatrix exampleVector 0 = exampleState0"
  "stateAfter exampleTolerant exampleMatrix exampleVector 1 = exampleState1"
  "stateAfter exampleTolerant exampleMatrix exampleVector 2 = exampleState2"
  "stateAfter exampleTolerant exampleMatrix exampleVector 3 = exampleState3"
  "stateAfter exampleTolerant exampleMatrix exampleVector 4 = exampleState4"
  "stateAfter exampleTolerant exampleMatrix exampleVector 5 = exampleState5"
  by (simp_all add: stateAfter_def eval_nat_numeral example_init example_step_0 example_step_1
      example_step_2 example_step_3 example_step_4)

lemma zeroRank_step:
  "pagerank_iteration exampleTolerant zeroRankState =
     exampleState 4 (Finite 1) (Finite 1) [Finite (1 / 4), Finite (1 / 4)] [Finite 0, Finite 1]
       [Finite 0, Finite 0] [False, False] False"
  by code_simp

lemma exampleState_fields:
  "iterations (exampleState n d v pv previous converged flags status) = n"
  "delta (exampleState n d v pv previous converged flags status) = d"
  "pagerankVector (exampleState n d v pv previous converged flags status) = pv"
  "previousPagerankVector (exampleState n d v pv previous converged flags status) = previous"
  "convergedPagerankVector (exampleState n d v pv previous converged flags status) = converged"
  "convergenceMatrix (exampleState n d v pv previous converged flags status) = flags"
  "convergenceStatus (exampleState n d v pv previous converged flags status) = status"
  by (simp_all add: exampleState_def)

lemma exampleTolerant_fields:
  "numberOfPages exampleTolerant = 2"
  "maxIterations exampleTolerant = 0"
  "convergenceCriterion exampleTolerant = Finite (3 / 10)"
  by (simp_all add: exampleTolerant_def exampleParameters_def exampleInput_def)

section \<open>Convergence checks\<close>

lemma increaseSparsity_flags_off:
  "\<not> (iterations s \<noteq> 0 \<and> iterations s mod 3 = 0) \<Longrightarrow> increaseSparsity p s = s"
  by (auto simp: increaseSparsity_def SPARSITY_INCREASE_ITERATION_PERIOD_def)

lemma increaseSparsity_flags_on:
  assumes "iterations s \<noteq> 0" "iterations s mod 3 = 0"
  shows "convergenceMatrix (increaseSparsity p s) = convergenceMatrix (markConverged p s)"
    and "convergedPagerankVector (increaseSparsity p s) = convergedPagerankVector (markConverged p s)"
  using assms
  by (simp_all add: increaseSparsity_def SPARSITY_INCREASE_ITERATION_PERIOD_def
      fold_sparsifyPage_keeps)

lemma markConverged_nth:
  assumes "i < numberOfPages p"
  shows "convergenceMatrix (markConverged p s) ! i =
           (convergenceMatrix s ! i \<or>
            dless (difference (pagerankVector s) (previousPagerankVector s) i)
              (convergenceCriterion p))"
    and "convergedPagerankVector (markConverged p s) ! i =
           (if \<not> convergenceMatrix s ! i \<and>
               dless (difference (pagerankVector s) (previousPagerankVector s) i)
                 (convergenceCriterion p)
            then pagerankVector s ! i else convergedPagerankVector s ! i)"
  using assms by (auto simp: markConverged_def newlyConvergedPages_def Let_def)

lemma pagerank_iteration_flags:
  "convergenceMatrix (pagerank_iteration p s) =
     convergenceMatrix (increaseSparsity p (checkConvergence p (nextPagerank p s)))"
  "convergedPagerankVector (pagerank_iteration p s) =
     convergedPagerankVector (increaseSparsity p (checkConvergence p (nextPagerank p s)))"
  by (simp_all add: pagerank_iteration_def Let_def)

lemma pagerank_iteration_flags_off:
  assumes "\<not> (iterations s \<noteq> 0 \<and> iterations s mod 3 = 0)"
  shows "convergenceMatrix (pagerank_iteration p s) = convergenceMatrix s"
    and "convergedPagerankVector (pagerank_iteration p s) = convergedPagerankVector s"
  using assms
  by (simp_all add: pagerank_iteration_flags increaseSparsity_flags_off
      checkConvergence_keeps nextPagerank_keeps)

lemma pagerank_iteration_flags_on:
  assumes "iterations s \<noteq> 0" "iterations s mod 3 = 0" "i < numberOfPages p"
  shows "convergenceMatrix (pagerank_iteration p s) ! i =
           (convergenceMatrix s ! i \<or>
            dless (difference (pagerankVector (pagerank_iteration p s))
                     (previousPagerankVector (pagerank_iteration p s)) i)
              (convergenceCriterion p))"
    and "convergedPagerankVector (pagerank_iteration p s) ! i =
           (if \<not> convergenceMatrix s ! i \<and>
               dless (difference (pagerankVector (pagerank_iteration p s))
                     (previousPagerankVector (pagerank_iteration p s)) i)
                 (convergenceCriterion p)
            then pagerankVector (pagerank_iteration p s) ! i
            else convergedPagerankVector s ! i)"
  using assms
  by (simp_all add: pagerank_iteration_flags increaseSparsity_flags_on
      checkConvergence_keeps nextPagerank_keeps markConverged_nth pagerank_iteration_vectors)

text \<open>
  Claim C5. On an iteration \<open>t\<close> with \<open>t mod 3 = 0\<close> the controller computes \<open>delta\<close> as
  the first norm of the difference between the current and the previous pagerank vector
  and sets the global convergence status exactly when \<open>delta\<close> is strictly below the
  tolerance (a status that is not yet set becomes the outcome of that comparison); on an
  iteration with \<open>t mod 3 \<noteq> 0\<close> the status is unchanged.
\<close>

theorem global_convergence_check:
  "(iterations s mod 3 = 0 \<longrightarrow>
      delta (pagerank_iteration p s) =
        vectorNorm (map (\<lambda>i. dsub (pagerankVector (pagerank_iteration p s) ! i)
                               (previousPagerankVector (pagerank_iteration p s) ! i))
                      [0..<numberOfPages p]) (numberOfPages p) \<and>
      convergenceStatus (pagerank_iteration p s) =
        (convergenceStatus s \<or> dless (delta (pagerank_iteration p s)) (convergenceCriterion p)) \<and>
      (\<not> convergenceStatus s \<longrightarrow>
         convergenceStatus (pagerank_iteration p s) =
           dless (delta (pagerank_iteration p s)) (convergenceCriterion p))) \<and>
   (iterations s mod 3 \<noteq> 0 \<longrightarrow>
      convergenceStatus (pagerank_iteration p s) = convergenceStatus s)"
  by (simp add: pagerank_iteration_status pagerank_iteration_vectors checkConvergence_def
      CONVERGENCE_CHECK_ITERATION_PERIOD_def Let_def nextPagerank_keeps pagerankDifference_def)

theorem global_convergence_check_witness:
  "iterations exampleState3 mod 3 = 0 \<and> \<not> convergenceStatus exampleState3 \<and>
   delta (pagerank_iteration exampleTolerant exampleState3) = Finite (4287761 / 40960000) \<and>
   convergenceStatus (pagerank_iteration exampleTolerant exampleState3) \<and>
   iterations exampleState1 mod 3 \<noteq> 0 \<and>
   convergenceStatus (pagerank_iteration exampleTolerant exampleState1) =
     convergenceStatus exampleState1"
  using global_convergence_check [of exampleState3 exampleTolerant]
    global_convergence_check [of exampleState1 exampleTolerant]
  unfolding example_step_3 example_step_1
  by (simp add: exampleState1_def exampleState2_def exampleState3_def exampleState4_def
      exampleState_fields exampleTolerant_fields vectorNorm_def dsub_def upt_0_2)



lemma difference_zero_previous:
  assumes "previous ! i = Finite 0"
  shows "\<not> dless (difference pv previous i) c"
proof -
  have "\<not> dless (ddiv (fabs x) (Finite 0)) c" for x
    by (cases x; cases c) (simp_all add: dinf_def)
  with assms show ?thesis by (simp add: difference_def)
qed

lemma zeroRankState_fields:
  "pagerankVector zeroRankState = [Finite 0, Finite 1]"
  "convergenceMatrix zeroRankState = [False, False]"
  "convergedPagerankVector zeroRankState = [Finite 0, Finite 0]"
  "iterations zeroRankState = 3"
  by (simp_all add: zeroRankState_def pagerank_init_def exampleTolerant_fields eval_nat_numeral)

text \<open>
  Claim C7. A page \<open>i\<close> whose previous rank is \<open>0\<close> is treated as not converged in the
  relative-change test: the quotient is an infinity or NaN, the comparison with the
  tolerance is false, so the convergence flag of the page stays as it was (false if it was
  false) and its entry of the converged-rank vector is not written.
\<close>

theorem zero_previous_not_converged:
  assumes "i < numberOfPages p" and "pagerankVector s ! i = Finite 0"
  shows "previousPagerankVector (pagerank_iteration p s) ! i = Finite 0 \<and>
         difference (pagerankVector (pagerank_iteration p s))
           (previousPagerankVector (pagerank_iteration p s)) i \<in> {PInf, NaN} \<and>
         convergenceMatrix (pagerank_iteration p s) ! i = convergenceMatrix s ! i \<and>
         convergedPagerankVector (pagerank_iteration p s) ! i = convergedPagerankVector s ! i"
proof -
  let ?s' = "pagerank_iteration p s"
  have prev: "previousPagerankVector ?s' ! i = Finite 0"
    using assms by (simp add: pagerank_iteration_vectors nextPagerank_def Let_def)
  have d: "difference (pagerankVector ?s') (previousPagerankVector ?s') i \<in> {PInf, NaN}"
  proof -
    have "ddiv (fabs x) (Finite 0) \<in> {PInf, NaN}" for x
      by (cases x) (simp_all add: dinf_def)
    with prev show ?thesis by (simp add: difference_def)
  qed
  have nd: "\<not> dless (difference (pagerankVector ?s') (previousPagerankVector ?s') i)
               (convergenceCriterion p)"
    by (rule difference_zero_previous [OF prev])
  have "convergenceMatrix ?s' ! i = convergenceMatrix s ! i \<and>
        convergedPagerankVector ?s' ! i = convergedPagerankVector s ! i"
  proof (cases "iterations s \<noteq> 0 \<and> iterations s mod 3 = 0")
    case True
    then have n: "iterations s \<noteq> 0" and m: "iterations s mod 3 = 0" by simp_all
    from nd show ?thesis
      by (simp add: pagerank_iteration_flags_on [OF n m assms(1)])
  next
    case False
    then show ?thesis by (simp add: pagerank_iteration_flags_off)
  qed
  with prev d show ?thesis by simp
qed

theorem zero_previous_not_converged_witness:
  "(0::nat) < numberOfPages exampleTolerant \<and> pagerankVector zeroRankState ! 0 = Finite 0 \<and>
   iterations zeroRankState = 3 \<and>
   difference (pagerankVector (pagerank_iteration exampleTolerant zeroRankState))
     (previousPagerankVector (pagerank_iteration exampleTolerant zeroRankState)) 0 = PInf \<and>
   \<not> convergenceMatrix (pagerank_iteration exampleTolerant zeroRankState) ! 0 \<and>
   convergedPagerankVector (pagerank_iteration exampleTolerant zeroRankState) ! 0 = Finite 0"
  using zero_previous_not_converged [of 0 exampleTolerant zeroRankState]
  unfolding zeroRank_step
  by (simp add: zeroRankState_fields exampleTolerant_fields exampleState_fields
      difference_def dsub_def dinf_def)

section \<open>The convergence state along a run\<close>

lemma step_flag_kept:
  assumes "i < numberOfPages p" and "convergenceMatrix s ! i"
  shows "convergenceMatrix (pagerank_iteration p s) ! i"
    and "convergedPagerankVector (pagerank_iteration p s) ! i = convergedPagerankVector s ! i"
proof -
  show "convergenceMatrix (pagerank_iteration p s) ! i"
  proof (cases "iterations s \<noteq> 0 \<and> iterations s mod 3 = 0")
    case True
    then have n: "iterations s \<noteq> 0" and m: "iterations s mod 3 = 0" by simp_all
    from assms(2) show ?thesis by (simp add: pagerank_iteration_flags_on [OF n m assms(1)])
  next
    case False
    with assms(2) show ?thesis by (simp add: pagerank_iteration_flags_off)
  qed
  show "convergedPagerankVector (pagerank_iteration p s) ! i = convergedPagerankVector s ! i"
  proof (cases "iterations s \<noteq> 0 \<and> iterations s mod 3 = 0")
    case True
    then have n: "iterations s \<noteq> 0" and m: "iterations s mod 3 = 0" by simp_all
    from assms(2) show ?thesis by (simp add: pagerank_iteration_flags_on [OF n m assms(1)])
  next
    case False
    then show ?thesis by (simp add: pagerank_iteration_flags_off)
  qed
qed

lemma step_flag_new:
  assumes "i < numberOfPages p" and "\<not> convergenceMatrix s ! i"
  shows "convergedPagerankVector (pagerank_iteration p s) ! i =
           (if convergenceMatrix (pagerank_iteration p s) ! i
            then pagerankVector (pagerank_iteration p s) ! i
            else convergedPagerankVector s ! i)"
proof (cases "iterations s \<noteq> 0 \<and> iterations s mod 3 = 0")
  case True
  then have n: "iterations s \<noteq> 0" and m: "iterations s mod 3 = 0" by simp_all
  from assms(2) show ?thesis by (simp add: pagerank_iteration_flags_on [OF n m assms(1)])
next
  case False
  with assms(2) show ?thesis by (simp add: pagerank_iteration_flags_off)
qed

lemma stateAfter_flag_kept:
  assumes "i < numberOfPages p" and "convergenceMatrix (stateAfter p tm pv t) ! i"
  shows "convergenceMatrix (stateAfter p tm pv (t + k)) ! i \<and>
         convergedPagerankVector (stateAfter p tm pv (t + k)) ! i =
           convergedPagerankVector (stateAfter p tm pv t) ! i"
proof (induction k)
  case 0
  from assms(2) show ?case by simp
next
  case (Suc k)
  then show ?case
    by (simp add: stateAfter_Suc step_flag_kept [OF assms(1)])
qed

lemma stateAfter_unset_zero:
  assumes "i < numberOfPages p"
  shows "\<not> convergenceMatrix (stateAfter p tm pv t) ! i \<Longrightarrow>
         convergedPagerankVector (stateAfter p tm pv t) ! i = Finite 0"
proof (induction t)
  case 0
  from assms show ?case by (simp add: stateAfter_0 pagerank_init_def)
next
  case (Suc t)
  from Suc.prems have n: "\<not> convergenceMatrix (stateAfter p tm pv t) ! i"
    using step_flag_kept(1) [OF assms] by (auto simp: stateAfter_Suc)
  from step_flag_new [OF assms n] Suc.prems Suc.IH [OF n] show ?case
    by (simp add: stateAfter_Suc)
qed

text \<open>
  Claim C8. The per-page convergence state is monotone along a run: once the flag of a
  page is true it stays true and the page's entry of the converged-rank vector no longer
  changes; while the flag is false the entry is zero; and in the iteration that sets the
  flag the entry receives the rank of the page.
\<close>

theorem convergence_flags_monotone:
  assumes "i < numberOfPages p"
  shows "(convergenceMatrix (stateAfter p tm pv t) ! i \<longrightarrow>
            convergenceMatrix (stateAfter p tm pv (t + k)) ! i \<and>
            convergedPagerankVector (stateAfter p tm pv (t + k)) ! i =
              convergedPagerankVector (stateAfter p tm pv t) ! i) \<and>
         (\<not> convergenceMatrix (stateAfter p tm pv t) ! i \<longrightarrow>
            convergedPagerankVector (stateAfter p tm pv t) ! i = Finite 0) \<and>
         (\<not> convergenceMatrix (stateAfter p tm pv t) ! i \<and>
          convergenceMatrix (stateAfter p tm pv (Suc t)) ! i \<longrightarrow>
            convergedPagerankVector (stateAfter p tm pv (Suc t)) ! i =
              pagerankVector (stateAfter p tm pv (Suc t)) ! i)"
proof (intro conjI impI)
  assume "convergenceMatrix (stateAfter p tm pv t) ! i"
  from stateAfter_flag_kept [OF assms this, of k]
  show "convergenceMatrix (stateAfter p tm pv (t + k)) ! i"
    and "convergedPagerankVector (stateAfter p tm pv (t + k)) ! i =
              convergedPagerankVector (stateAfter p tm pv t) ! i"
    by simp_all
next
  assume "\<not> convergenceMatrix (stateAfter p tm pv t) ! i"
  then show "convergedPagerankVector (stateAfter p tm pv t) ! i = Finite 0"
    by (rule stateAfter_unset_zero [OF assms])
next
  assume a: "\<not> convergenceMatrix (stateAfter p tm pv t) ! i \<and>
          convergenceMatrix (stateAfter p tm pv (Suc t)) ! i"
  then have n: "\<not> convergenceMatrix (stateAfter p tm pv t) ! i" by simp
  from step_flag_new [OF assms n] a
  show "convergedPagerankVector (stateAfter p tm pv (Suc t)) ! i =
              pagerankVector (stateAfter p tm pv (Suc t)) ! i"
    by (simp add: stateAfter_Suc)
qed

theorem convergence_flags_monotone_witness:
  "(0::nat) < numberOfPages exampleTolerant \<and>
   \<not> convergenceMatrix (stateAfter exampleTolerant exampleMatrix exampleVector 3) ! 0 \<and>
   convergedPagerankVector (stateAfter exampleTolerant exampleMatrix exampleVector 3) ! 0 = Finite 0 \<and>
   convergenceMatrix (stateAfter exampleTolerant exampleMatrix exampleVector 4) ! 0 \<and>
   convergedPagerankVector (stateAfter exampleTolerant exampleMatrix exampleVector 4) ! 0 =
     Finite (4287761 / 81920000) \<and>
   convergenceMatrix (stateAfter exampleTolerant exampleMatrix exampleVector 5) ! 0 \<and>
   convergedPagerankVector (stateAfter exampleTolerant exampleMatrix exampleVector 5) ! 0 =
     Finite (4287761 / 81920000)"
  using convergence_flags_monotone [of 0 exampleTolerant exampleMatrix exampleVector 3 0]
    convergence_flags_monotone [of 0 exampleTolerant exampleMatrix exampleVector 4 1]
  unfolding Suc_eq_plus1 
  apply (simp add: stateAfter_example)
  apply (simp add: exampleState3_def exampleState4_def exampleState5_def
      exampleState_fields exampleTolerant_fields)
  done

section \<open>The first convergence check\<close>


lemma initialize_vector:
  assumes "initialize edges parameters0 = (tm, pv, parameters)"
  shows "pv = replicate (numberOfPages parameters)
                (ddiv (Finite 1) (double_of_nat (numberOfPages parameters)))"
  using assms
  by (auto simp: initialize_def Let_def map_replicate_const split: prod.splits)

lemma map_nth_replicate: "map (\<lambda>i. replicate n x ! i) [0..<n] = replicate n x"
  by (simp add: list_eq_iff_nth_eq)

text \<open>
  Claim C3 says that at iteration \<open>0\<close> the global check compares the initial uniform
  vector with itself, so that the first \<open>delta\<close> is the distance between two copies of
  the starting vector. On the example that distance is \<open>0\<close>, and the \<open>delta\<close> of the
  first check is \<open>17/40\<close>.
\<close>

theorem first_check_counterexample:
  "vectorNorm (pagerankDifference 2 exampleVector exampleVector) 2 = Finite 0 \<and>
   delta (pagerank_iteration exampleParameters
            (pagerank_init exampleMatrix exampleVector exampleParameters)) = Finite (17 / 40) \<and>
   delta (pagerank_iteration exampleParameters
            (pagerank_init exampleMatrix exampleVector exampleParameters)) \<noteq>
     vectorNorm (pagerankDifference 2 exampleVector exampleVector) 2"
  unfolding example_first_iteration
  by (simp add: exampleState1_def exampleState_fields vectorNorm_def pagerankDifference_def
      exampleVector_def dsub_def upt_0_2)

text \<open>
  Claim C3, amended. At iteration \<open>0\<close> the previous vector is the initial uniform vector
  and the current one is the result of the first update; \<open>delta\<close> of the first check is
  the first norm of their difference, and the check is performed, not skipped: the status
  after the first iteration is the outcome of the comparison of that \<open>delta\<close> with the
  tolerance.
\<close>

theorem first_check_compares_update:
  assumes "initialize edges parameters0 = (tm, pv, parameters)"
  shows "previousPagerankVector (pagerank_iteration parameters (pagerank_init tm pv parameters))
           = pv \<and>
         pagerankVector (pagerank_iteration parameters (pagerank_init tm pv parameters)) =
           calculateNextPagerank tm pv (replicate (numberOfPages parameters) (Finite 0))
             (replicate (numberOfPages parameters) (Finite 0)) (numberOfPages parameters)
             (dampingFactor parameters) \<and>
         delta (pagerank_iteration parameters (pagerank_init tm pv parameters)) =
           vectorNorm
             (map (\<lambda>i. dsub (pagerankVector (pagerank_iteration parameters
                                 (pagerank_init tm pv parameters)) ! i) (pv ! i))
                [0..<numberOfPages parameters]) (numberOfPages parameters) \<and>
         convergenceStatus (pagerank_iteration parameters (pagerank_init tm pv parameters)) =
           dless (delta (pagerank_iteration parameters (pagerank_init tm pv parameters)))
             (convergenceCriterion parameters)"
proof -
  let ?n = "numberOfPages parameters"
  let ?s0 = "pagerank_init tm pv parameters"
  have pv: "pv = replicate ?n (ddiv (Finite 1) (double_of_nat ?n))"
    by (rule initialize_vector [OF assms])
  have prev: "map (\<lambda>i. pv ! i) [0..<?n] = pv"
    by (subst (1 2) pv) (rule map_nth_replicate)
  have a: "previousPagerankVector (nextPagerank parameters ?s0) = pv"
    using prev by (simp add: nextPagerank_def Let_def pagerank_init_def)
  have b: "pagerankVector (nextPagerank parameters ?s0) =
      calculateNextPagerank tm pv (replicate ?n (Finite 0)) (replicate ?n (Finite 0)) ?n
        (dampingFactor parameters)"
    using prev by (simp add: nextPagerank_def Let_def pagerank_init_def)
  have i: "iterations ?s0 mod 3 = 0" "\<not> convergenceStatus ?s0"
    by (simp_all add: pagerank_init_def)
  from a b i show ?thesis
    by (simp add: pagerank_iteration_vectors pagerank_iteration_status checkConvergence_def
        CONVERGENCE_CHECK_ITERATION_PERIOD_def Let_def nextPagerank_keeps pagerankDifference_def)
qed

theorem first_check_compares_update_witness:
  "initialize [(0, 1)] exampleInput = (exampleMatrix, exampleVector, exampleParameters) \<and>
   previousPagerankVector (pagerank_iteration exampleParameters
      (pagerank_init exampleMatrix exampleVector exampleParameters)) = exampleVector \<and>
   pagerankVector (pagerank_iteration exampleParameters
      (pagerank_init exampleMatrix exampleVector exampleParameters)) =
     [Finite (23 / 160), Finite (91 / 160)] \<and>
   delta (pagerank_iteration exampleParameters
      (pagerank_init exampleMatrix exampleVector exampleParameters)) = Finite (17 / 40) \<and>
   \<not> convergenceStatus (pagerank_iteration exampleParameters
      (pagerank_init exampleMatrix exampleVector exampleParameters))"
  using first_check_compares_update [OF initialize_example] initialize_example
  unfolding example_first_iteration
  by (simp add: exampleState1_def exampleState_fields)

section \<open>The links copied in a sparsity step\<close>


lemma triangle_initialize:
  "fst (initialize triangleEdges (exampleInput\<lparr>maxIterations := 0,
     convergenceCriterion := Finite (1 / 10)\<rparr>)) = triangleMatrix"
  by code_simp

lemma triangle_newly: "newlyConvergedPages triangleParameters triangleState = [True, True, False]"
  by code_simp

lemma triangle_sparsity:
  "increaseSparsity triangleParameters triangleState =
     triangleState
       \<lparr>transitionMatrix :=
          triangleMatrix\<lparr>csrValues := [Finite 0, Finite 0, Finite 0, Finite 0]\<rparr>,
        convergedPagerankVector := [Finite (1 / 2), Finite (1 / 4), Finite 0],
        linksFromConvergedPagesPagerankVector := [Finite (1 / 4), Finite 0, Finite 0],
        linksFromConvergedPages :=
          \<lparr>cooSize = 4,
           elements = [\<lparr>elementValue = Finite 1, rowIndex = 0, columnIndex = 2\<rparr>]\<rparr>,
        convergenceMatrix := [True, True, False]\<rparr>"
  by code_simp

lemma addElement_elements:
  "elements (addElement l v r c) =
     elements l @ [\<lparr>elementValue = v, rowIndex = r, columnIndex = c\<rparr>]"
  by (simp add: addElement_def)

lemma fold_copy_elements:
  "\<exists>added. elements (fold (\<lambda>j l. let pageLinksTo = cols ! j
                               in if conv ! pageLinksTo = False
                                  then addElement l (vals ! j) i pageLinksTo else l) js l0) =
             elements l0 @ added \<and>
           (\<forall>e\<in>set added. rowIndex e = i \<and> \<not> conv ! columnIndex e)"
proof (induction js arbitrary: l0)
  case Nil
  show ?case by simp
next
  case (Cons j js)
  show ?case
  proof (cases "conv ! (cols ! j)")
    case True
    with Cons.IH [of l0] show ?thesis by (simp add: Let_def)
  next
    case False
    from Cons.IH [of "addElement l0 (vals ! j) i (cols ! j)"] obtain added where
      a: "elements (fold (\<lambda>j l. let pageLinksTo = cols ! j
                               in if conv ! pageLinksTo = False
                                  then addElement l (vals ! j) i pageLinksTo else l) js
                     (addElement l0 (vals ! j) i (cols ! j))) =
          elements (addElement l0 (vals ! j) i (cols ! j)) @ added"
      and b: "\<forall>e\<in>set added. rowIndex e = i \<and> \<not> conv ! columnIndex e"
      by blast
    let ?new = "\<lparr>elementValue = vals ! j, rowIndex = i, columnIndex = cols ! j\<rparr>"
    from a False have "elements (fold (\<lambda>j l. let pageLinksTo = cols ! j
                               in if conv ! pageLinksTo = False
                                  then addElement l (vals ! j) i pageLinksTo else l) (j # js) l0) =
          elements l0 @ (?new # added)"
      by (simp add: Let_def addElement_elements)
    moreover from b False have "\<forall>e\<in>set (?new # added). rowIndex e = i \<and> \<not> conv ! columnIndex e"
      by simp
    ultimately show ?thesis by blast
  qed
qed

lemma copyLinks_elements:
  "\<exists>added. elements (copyLinks tm conv links i) = elements links @ added \<and>
           (\<forall>e\<in>set added. rowIndex e = i \<and> \<not> conv ! columnIndex e)"
proof (cases "rowCumulativeIndexes tm ! (i + 1) > rowCumulativeIndexes tm ! i")
  case True
  with fold_copy_elements [of "columnIndexes tm" conv "csrValues tm" i
      "[rowCumulativeIndexes tm ! i..<rowCumulativeIndexes tm ! (i + 1)]" links]
  show ?thesis by (simp add: copyLinks_def Let_def)
next
  case False
  then show ?thesis by (simp add: copyLinks_def Let_def)
qed

lemma sparsifyPage_elements:
  "\<exists>added. elements (linksFromConvergedPages (sparsifyPage p nw i s)) =
             elements (linksFromConvergedPages s) @ added \<and>
           (\<forall>e\<in>set added. rowIndex e = i \<and> nw ! rowIndex e \<and>
                           \<not> convergenceMatrix s ! columnIndex e)"
proof (cases "nw ! i")
  case True
  from copyLinks_elements [of "transitionMatrix s" "convergenceMatrix s"
      "linksFromConvergedPages s" i] True
  show ?thesis by (auto simp: sparsifyPage_def Let_def)
next
  case False
  then show ?thesis by (simp add: sparsifyPage_def)
qed

lemma fold_sparsifyPage_elements:
  "\<exists>added. elements (linksFromConvergedPages (fold (sparsifyPage p nw) xs s)) =
             elements (linksFromConvergedPages s) @ added \<and>
           (\<forall>e\<in>set added. rowIndex e \<in> set xs \<and> nw ! rowIndex e \<and>
                           \<not> convergenceMatrix s ! columnIndex e)"
proof (induction xs arbitrary: s)
  case Nil
  show ?case by simp
next
  case (Cons x xs)
  from sparsifyPage_elements [of p nw x s] obtain a1 where
    a1: "elements (linksFromConvergedPages (sparsifyPage p nw x s)) =
           elements (linksFromConvergedPages s) @ a1"
        "\<forall>e\<in>set a1. rowIndex e = x \<and> nw ! rowIndex e \<and> \<not> convergenceMatrix s ! columnIndex e"
    by blast
  from Cons.IH [of "sparsifyPage p nw x s"] obtain a2 where
    a2: "elements (linksFromConvergedPages (fold (sparsifyPage p nw) xs (sparsifyPage p nw x s))) =
           elements (linksFromConvergedPages (sparsifyPage p nw x s)) @ a2"
        "\<forall>e\<in>set a2. rowIndex e \<in> set xs \<and> nw ! rowIndex e \<and>
                     \<not> convergenceMatrix (sparsifyPage p nw x s) ! columnIndex e"
    by blast
  have "elements (linksFromConvergedPages (fold (sparsifyPage p nw) (x # xs) s)) =
          elements (linksFromConvergedPages s) @ (a1 @ a2)"
    using a1(1) a2(1) by simp
  moreover have "\<forall>e\<in>set (a1 @ a2). rowIndex e \<in> set (x # xs) \<and> nw ! rowIndex e \<and>
                     \<not> convergenceMatrix s ! columnIndex e"
    using a1(2) a2(2) by (auto simp: sparsifyPage_keeps)
  ultimately show ?case by blast
qed

lemma newly_flagged:
  assumes "i < numberOfPages p"
  shows "newlyConvergedPages p s ! i \<Longrightarrow> convergenceMatrix (markConverged p s) ! i"
  using assms by (simp add: markConverged_nth newlyConvergedPages_def)

lemma triangleState_fields:
  "iterations triangleState = 3"
  "elements (linksFromConvergedPages triangleState) = []"
  "numberOfPages triangleParameters = 3"
  by (simp_all add: triangleState_def triangleParameters_def pagerank_init_def
      allocMemoryForCoo_def initCooSparseMatrix_def)

text \<open>
  Claim C10. In a sparsity step the flags of all pages that newly converged in the step
  are set before any link is copied: they are set in every state in which the second loop
  copies the links of a page. So every triple the step appends to the matrix of links
  from converged pages has the row of a newly converged page and the column of a page
  whose flag is not set, which therefore did not converge in this step.
\<close>

theorem newly_converged_links:
  assumes "iterations s \<noteq> 0" and "iterations s mod 3 = 0"
  shows "(\<forall>i<numberOfPages p. \<forall>k\<le>numberOfPages p.
            newlyConvergedPages p s ! i \<longrightarrow>
            convergenceMatrix (fold (sparsifyPage p (newlyConvergedPages p s)) [0..<k]
                                 (markConverged p s)) ! i) \<and>
         take (length (elements (linksFromConvergedPages s)))
           (elements (linksFromConvergedPages (increaseSparsity p s))) =
           elements (linksFromConvergedPages s) \<and>
         (\<forall>e\<in>set (drop (length (elements (linksFromConvergedPages s)))
                      (elements (linksFromConvergedPages (increaseSparsity p s)))).
            newlyConvergedPages p s ! rowIndex e \<and>
            \<not> convergenceMatrix (increaseSparsity p s) ! columnIndex e \<and>
            (columnIndex e < numberOfPages p \<longrightarrow>
               \<not> newlyConvergedPages p s ! columnIndex e))"
proof -
  let ?nw = "newlyConvergedPages p s"
  let ?m = "markConverged p s"
  have inc: "increaseSparsity p s = fold (sparsifyPage p ?nw) [0..<numberOfPages p] ?m"
    using assms by (simp add: increaseSparsity_def SPARSITY_INCREASE_ITERATION_PERIOD_def)
  have flags: "convergenceMatrix (increaseSparsity p s) = convergenceMatrix ?m"
    by (simp add: inc fold_sparsifyPage_keeps)
  from fold_sparsifyPage_elements [of p ?nw "[0..<numberOfPages p]" ?m] obtain added where
    a: "elements (linksFromConvergedPages (increaseSparsity p s)) =
          elements (linksFromConvergedPages s) @ added"
    and b: "\<forall>e\<in>set added. rowIndex e \<in> set [0..<numberOfPages p] \<and> ?nw ! rowIndex e \<and>
                     \<not> convergenceMatrix ?m ! columnIndex e"
    by (auto simp: inc markConverged_keeps)
  have 1: "\<forall>i<numberOfPages p. \<forall>k\<le>numberOfPages p. ?nw ! i \<longrightarrow>
            convergenceMatrix (fold (sparsifyPage p ?nw) [0..<k] ?m) ! i"
    by (simp add: fold_sparsifyPage_keeps newly_flagged)
  have 2: "take (length (elements (linksFromConvergedPages s)))
           (elements (linksFromConvergedPages (increaseSparsity p s))) =
           elements (linksFromConvergedPages s)"
    by (simp add: a)
  have 3: "\<forall>e\<in>set (drop (length (elements (linksFromConvergedPages s)))
                      (elements (linksFromConvergedPages (increaseSparsity p s)))).
            ?nw ! rowIndex e \<and>
            \<not> convergenceMatrix (increaseSparsity p s) ! columnIndex e \<and>
            (columnIndex e < numberOfPages p \<longrightarrow> \<not> ?nw ! columnIndex e)"
  proof
    fix e
    assume "e \<in> set (drop (length (elements (linksFromConvergedPages s)))
                      (elements (linksFromConvergedPages (increaseSparsity p s))))"
    then have e: "e \<in> set added" by (simp add: a)
    with b have r: "?nw ! rowIndex e" and c: "\<not> convergenceMatrix ?m ! columnIndex e"
      by simp_all
    from c newly_flagged [of "columnIndex e" p s]
    have "columnIndex e < numberOfPages p \<longrightarrow> \<not> ?nw ! columnIndex e" by blast
    with r c show "?nw ! rowIndex e \<and>
            \<not> convergenceMatrix (increaseSparsity p s) ! columnIndex e \<and>
            (columnIndex e < numberOfPages p \<longrightarrow> \<not> ?nw ! columnIndex e)"
      by (simp add: flags)
  qed
  from 1 2 3 show ?thesis by blast
qed

theorem newly_converged_links_witness:
  "iterations triangleState \<noteq> 0 \<and> iterations triangleState mod 3 = 0 \<and>
   newlyConvergedPages triangleParameters triangleState = [True, True, False] \<and>
   columnIndexes triangleMatrix ! 0 = 1 \<and>
   elements (linksFromConvergedPages (increaseSparsity triangleParameters triangleState)) =
     [\<lparr>elementValue = Finite 1, rowIndex = 0, columnIndex = 2\<rparr>] \<and>
   convergenceMatrix (increaseSparsity triangleParameters triangleState) = [True, True, False]"
  using newly_converged_links [of triangleState triangleParameters]
  unfolding triangle_sparsity triangle_newly
  by (simp add: triangleState_fields triangleMatrix_def)

section \<open>The sums of the transition matrix\<close>


lemma fork_matrix:
  "fst (generateNormalizedTransitionMatrixFromFile forkEdges exampleInput) =
     \<lparr>numberOfNonZeroElements = 2, rowCumulativeIndexes = [0, 0, 1, 2],
      columnIndexes = [0, 0], csrValues = [Finite (1 / 2), Finite (1 / 2)]\<rparr>"
  by code_simp

text \<open>
  Claim C9 says that right after the construction of the transition matrix every row of
  the stored matrix sums to \<open>1\<close> up to epsilon. For the graph in which page \<open>0\<close> links
  to pages \<open>1\<close> and \<open>2\<close>, the stored row \<open>1\<close> has the single entry \<open>1/2\<close>, a value
  that a double holds exactly; and the column of page \<open>1\<close>, which has no outgoing link,
  has no entry.
\<close>

theorem row_sum_counterexample:
  "csrRowSum (fst (generateNormalizedTransitionMatrixFromFile forkEdges exampleInput)) 1 =
     Finite (1 / 2) \<and>
   csrColumnSum (fst (generateNormalizedTransitionMatrixFromFile forkEdges exampleInput)) 1 =
     Finite 0"
  unfolding fork_matrix by (simp add: csrRowSum_def csrColumnSum_def upt_0_2)

lemma fold_addElement:
  "elements (fold (\<lambda>(fileFrom, fileTo) m. addElement m (Finite 1) fileFrom fileTo) edges m0) =
     elements m0 @ map edgeElement edges \<and>
   cooSize (fold (\<lambda>(fileFrom, fileTo) m. addElement m (Finite 1) fileFrom fileTo) edges m0) =
     cooSize m0"
  by (induction edges arbitrary: m0) (auto simp: addElement_def edgeElement_def)

lemma readEdges_elements:
  "elements (readEdges edges) = map edgeElement edges"
  "cooSize (readEdges edges) = length edges"
  by (simp_all add: readEdges_def fold_addElement allocMemoryForCoo_def initCooSparseMatrix_def)

lemma fold_max_ge:
  "(m0::nat) \<le> fold (\<lambda>(fileFrom, fileTo) m.
             (let m1 = (if fileFrom > m then fileFrom else m)
              in if fileTo > m1 then fileTo else m1)) edges m0 \<and>
   (\<forall>e\<in>set edges. fst e \<le> fold (\<lambda>(fileFrom, fileTo) m.
             (let m1 = (if fileFrom > m then fileFrom else m)
              in if fileTo > m1 then fileTo else m1)) edges m0 \<and>
     snd e \<le> fold (\<lambda>(fileFrom, fileTo) m.
             (let m1 = (if fileFrom > m then fileFrom else m)
              in if fileTo > m1 then fileTo else m1)) edges m0)"
proof (induction edges arbitrary: m0)
  case Nil
  show ?case by simp
next
  case (Cons e edges)
  let ?m = "(let m1 = (if fst e > m0 then fst e else m0) in if snd e > m1 then snd e else m1)"
  have m: "m0 \<le> ?m" "fst e \<le> ?m" "snd e \<le> ?m" by (simp_all add: Let_def)
  from Cons.IH [of ?m] m show ?case
    by (auto simp: split_def Let_def intro: order_trans)
qed

lemma maxPageIndex_ge:
  assumes "e \<in> set edges"
  shows "fst e \<le> maxPageIndex edges" and "snd e \<le> maxPageIndex edges"
  using fold_max_ge [of 0 edges] assms by (auto simp: maxPageIndex_def)


lemma length_fold_update:
  "length (fold (\<lambda>i deg. deg[g i := h deg i]) xs d) = length d"
  by (induction xs arbitrary: d) simp_all

lemma pageOutdegree_count:
  assumes "k \<le> length (elements m)" and "r < n"
  shows "fold (\<lambda>i deg. (let currentRow = rowIndex (elements m ! i)
                     in if currentRow = rowIndex (elements m ! i)
                        then deg[currentRow := deg ! currentRow + 1] else deg))
           [0..<k] (replicate n (0::nat)) ! r =
         length (filter (\<lambda>e. rowIndex e = r) (take k (elements m)))"
  using assms(1)
proof (induction k)
  case 0
  from assms(2) show ?case by simp
next
  case (Suc k)
  let ?F = "\<lambda>i (deg::nat list).
      deg[rowIndex (elements m ! i) := deg ! rowIndex (elements m ! i) + 1]"
  have F: "(\<lambda>i deg. (let currentRow = rowIndex (elements m ! i)
                     in if currentRow = rowIndex (elements m ! i)
                        then deg[currentRow := deg ! currentRow + 1] else deg)) = ?F"
    by (simp add: Let_def)
  from Suc.prems have k: "k < length (elements m)" by simp
  define D where "D = fold ?F [0..<k] (replicate n 0)"
  have len: "length D = n"
    unfolding D_def by (simp add: length_fold_update)
  have IH: "D ! r = length (filter (\<lambda>e. rowIndex e = r) (take k (elements m)))"
    using Suc.IH k unfolding F D_def by simp
  have step: "fold ?F [0..<Suc k] (replicate n 0) =
      D[rowIndex (elements m ! k) := D ! rowIndex (elements m ! k) + 1]"
    unfolding D_def by simp
  show ?case
    unfolding F step using IH len assms(2) k
    by (simp add: take_Suc_conv_app_nth nth_list_update)
qed

lemma map_nth_function: "map (\<lambda>i. g (xs ! i)) [0..<length xs] = map g xs"
  by (rule nth_equalityI) simp_all

lemma fold_nth_function: "fold (\<lambda>i. g (xs ! i)) [0..<length xs] a = fold g xs a"
proof -
  have "fold g (map (\<lambda>i. xs ! i) [0..<length xs]) a = fold (\<lambda>i. g (xs ! i)) [0..<length xs] a"
    by (simp add: fold_map comp_def)
  then show ?thesis by (simp add: map_nth)
qed

lemma fold_dadd_constant:
  assumes "\<forall>e\<in>set xs. P e \<longrightarrow> elementValue e = Finite v"
  shows "fold (\<lambda>e acc. if P e then dadd acc (elementValue e) else acc) xs (Finite a) =
         Finite (a + real (length (filter P xs)) * v)"
  using assms
proof (induction xs arbitrary: a)
  case Nil
  show ?case by simp
next
  case (Cons x xs)
  then show ?case by (simp add: algebra_simps)
qed

lemma length_filter_rows:
  "length (filter P (concat (map (\<lambda>i. filter (\<lambda>e. rowIndex e = i) xs) [0..<n]))) =
   length (filter (\<lambda>e. P e \<and> rowIndex e < n) xs)"
proof (induction n)
  case 0
  show ?case by simp
next
  case (Suc n)
  have "length (filter (\<lambda>e. P e \<and> rowIndex e < n) xs) +
        length (filter (\<lambda>e. P e \<and> rowIndex e = n) xs) =
        length (filter (\<lambda>e. P e \<and> rowIndex e < Suc n) xs)"
    by (induction xs) (auto simp: less_Suc_eq)
  with Suc show ?case by (simp add: conj_commute)
qed


lemma pageOutdegree_edges:
  assumes "r \<le> maxPageIndex edges"
  shows "pageOutdegree (readEdges edges) (length edges) (maxPageIndex edges + 1) ! r =
         length (filter (\<lambda>e. fst e = r) edges)"
proof -
  have "pageOutdegree (readEdges edges) (length edges) (maxPageIndex edges + 1) ! r =
        length (filter (\<lambda>e. rowIndex e = r)
                  (take (length edges) (elements (readEdges edges))))"
    unfolding pageOutdegree_def
    by (rule pageOutdegree_count) (use assms in \<open>simp_all add: readEdges_elements\<close>)
  also have "\<dots> = length (filter (\<lambda>e. fst e = r) edges)"
    by (simp add: readEdges_elements filter_map comp_def edgeElement_def)
  finally show ?thesis .
qed

lemma normalizeRows_elements:
  assumes "cooSize m = length (elements m)"
  shows "elements (normalizeRows m deg) =
         map (\<lambda>e. e\<lparr>elementValue := ddiv (Finite 1) (double_of_nat (deg ! rowIndex e))\<rparr>)
           (elements m)"
  using map_nth_function
    [of "\<lambda>e. e\<lparr>elementValue := ddiv (Finite 1) (double_of_nat (deg ! rowIndex e))\<rparr>"
        "elements m"] assms
  by (simp add: normalizeRows_def)

lemma transposed_elements:
  "elements (transposeSparseMatrix (normalizeRows (readEdges edges) deg)) =
     map (\<lambda>e. \<lparr>elementValue = ddiv (Finite 1) (double_of_nat (deg ! fst e)),
                rowIndex = snd e, columnIndex = fst e\<rparr>) edges"
  by (simp add: transposeSparseMatrix_def normalizeRows_elements readEdges_elements
      edgeElement_def comp_def)

lemma csrColumnSum_transformToCSR:
  "csrColumnSum (transformToCSR m n) c =
     fold (\<lambda>e acc. if columnIndex e = c then dadd acc (elementValue e) else acc)
       (concat (map (rowElements m) [0..<n])) (Finite 0)"
proof -
  let ?sorted = "concat (map (rowElements m) [0..<n])"
  let ?g = "\<lambda>e acc. if columnIndex e = c then dadd acc (elementValue e) else acc"
  have "csrColumnSum (transformToCSR m n) c =
        fold (\<lambda>j acc. if map columnIndex ?sorted ! j = c
                       then dadd acc (map elementValue ?sorted ! j) else acc)
          [0..<length ?sorted] (Finite 0)"
    by (simp add: csrColumnSum_def transformToCSR_def Let_def cong: if_cong)
  also have "\<dots> = fold (\<lambda>j. ?g (?sorted ! j)) [0..<length ?sorted] (Finite 0)"
    by (rule fold_cong) (simp_all cong: if_cong)
  also have "\<dots> = fold ?g ?sorted (Finite 0)"
    by (rule fold_nth_function)
  finally show ?thesis .
qed

text \<open>
  Without rounding, the stored entries of the column of a page that has an outgoing link
  sum to exactly \<open>1\<close>.
\<close>

lemma column_sum_unrounded:
  assumes "c \<in> fst ` set edges"
  shows "csrColumnSum (fst (generateNormalizedTransitionMatrixFromFile edges parameters)) c =
         Finite 1"
proof -
  let ?n = "maxPageIndex edges + 1"
  let ?deg = "pageOutdegree (readEdges edges) (length edges) ?n"
  let ?m = "transposeSparseMatrix (normalizeRows (readEdges edges) ?deg)"
  let ?d = "length (filter (\<lambda>e. fst e = c) edges)"
  let ?P = "\<lambda>e. columnIndex e = c"
  let ?sorted = "concat (map (rowElements ?m) [0..<?n])"
  from assms have c: "c \<le> maxPageIndex edges"
    by (auto dest: maxPageIndex_ge)
  from assms have d: "0 < ?d"
    by (auto simp: length_greater_0_conv filter_empty_conv)
  have deg: "?deg ! c = ?d"
    by (rule pageOutdegree_edges [OF c])
  have els: "elements ?m =
     map (\<lambda>e. \<lparr>elementValue = ddiv (Finite 1) (double_of_nat (?deg ! fst e)),
                rowIndex = snd e, columnIndex = fst e\<rparr>) edges"
    by (rule transposed_elements)
  have val: "\<forall>e\<in>set ?sorted. ?P e \<longrightarrow> elementValue e = Finite (1 / real ?d)"
  proof (intro ballI impI)
    fix e assume "e \<in> set ?sorted" and p: "columnIndex e = c"
    then have "e \<in> set (elements ?m)" by (auto simp: rowElements_def)
    with p els deg d show "elementValue e = Finite (1 / real ?d)"
      by (auto simp: double_of_nat_def)
  qed
  have rows: "\<forall>e\<in>set (elements ?m). rowIndex e < ?n"
    unfolding els using maxPageIndex_ge(2) by (auto simp: less_Suc_eq_le)
  have "length (filter ?P ?sorted) =
        length (filter (\<lambda>e. ?P e \<and> rowIndex e < ?n) (elements ?m))"
    unfolding rowElements_def by (rule length_filter_rows)
  also have "\<dots> = length (filter ?P (elements ?m))"
    using rows by (intro arg_cong [where f = length] filter_cong) auto
  also have "\<dots> = ?d"
    unfolding els by (simp add: filter_map comp_def)
  finally have count: "length (filter ?P ?sorted) = ?d" .
  have "csrColumnSum (fst (generateNormalizedTransitionMatrixFromFile edges parameters)) c =
        fold (\<lambda>e acc. if ?P e then dadd acc (elementValue e) else acc) ?sorted (Finite 0)"
    by (simp add: generateNormalizedTransitionMatrixFromFile_def Let_def
        csrColumnSum_transformToCSR)
  also have "\<dots> = Finite (0 + real (length (filter ?P ?sorted)) * (1 / real ?d))"
    by (rule fold_dadd_constant [OF val])
  also have "\<dots> = Finite 1"
    unfolding count using d by simp
  finally show ?thesis .
qed

subsection \<open>The column sums with rounding\<close>

text \<open>
  A sum of \<open>k\<close> equal terms \<open>w\<close> close to \<open>1/d\<close>, accumulated from \<open>0\<close> with a
  rounded addition of relative error at most \<open>u\<close>, lies between
  \<open>(k/d) (1 - u)\<^bsup>k+1\<^esup>\<close> and \<open>(k/d) (1 + u)\<^bsup>k+1\<^esup>\<close>.
\<close>

lemma Suc_fraction:
  fixes D X :: real
  shows "real (Suc k) / D * X = real k / D * X + X / D"
  by (simp add: add_divide_distrib distrib_right)

lemma rounded_sum_bounds:
  fixes u lo hi w :: real and rnd :: "real \<Rightarrow> real" and d :: nat
  assumes u: "0 \<le> u" "u \<le> 1" and lo: "0 < lo"
    and rnd: "\<forall>x. lo \<le> x \<and> x \<le> hi \<longrightarrow> \<bar>rnd x - x\<bar> \<le> u * x"
    and d: "0 < d" and lod: "lo * real d \<le> 1 - u" and hi: "(1 + u) ^ (d + 1) \<le> hi"
    and w: "(1 - u) / real d \<le> w" "w \<le> (1 + u) / real d"
    and k: "k \<le> d"
  shows "real k / real d * (1 - u) ^ (k + 1) \<le> ((\<lambda>s. rnd (s + w)) ^^ k) 0 \<and>
         ((\<lambda>s. rnd (s + w)) ^^ k) 0 \<le> real k / real d * (1 + u) ^ (k + 1)"
  using k
proof (induction k)
  case 0
  show ?case by simp
next
  case (Suc k)
  let ?p = "1 + u" and ?q = "1 - u"
  let ?s = "((\<lambda>s. rnd (s + w)) ^^ k) 0"
  from Suc.prems have kd: "k \<le> d" and k1: "real (Suc k) \<le> real d" by simp_all
  from Suc.IH [OF kd] have sl: "real k / real d * ?q ^ (k + 1) \<le> ?s"
    and su: "?s \<le> real k / real d * ?p ^ (k + 1)" by simp_all
  from u have p1: "1 \<le> ?p" and q0: "0 \<le> ?q" and q1: "?q \<le> 1" by simp_all
  from d have rd: "0 < real d" by simp
  have pk: "?p \<le> ?p ^ (k + 1)"
    using p1 by (simp add: self_le_power)
  have qk: "?q ^ (k + 1) \<le> ?q"
  proof -
    have "?q ^ k \<le> 1" using q0 q1 by (rule power_le_one)
    then have "?q * ?q ^ k \<le> ?q" using q0 by (rule mult_left_le)
    then show ?thesis by simp
  qed
  have s0: "0 \<le> ?s"
    using sl q0 rd by (meson divide_nonneg_nonneg mult_nonneg_nonneg of_nat_0_le_iff
        order_trans zero_le_power less_imp_le)
  have xl: "real (Suc k) / real d * ?q ^ (k + 1) \<le> ?s + w"
  proof -
    have "real (Suc k) / real d * ?q ^ (k + 1) =
          real k / real d * ?q ^ (k + 1) + ?q ^ (k + 1) / real d"
      by (rule Suc_fraction)
    also have "\<dots> \<le> ?s + ?q / real d"
      using sl qk rd by (intro add_mono divide_right_mono) simp_all
    also have "\<dots> \<le> ?s + w" using w(1) by simp
    finally show ?thesis .
  qed
  have xu: "?s + w \<le> real (Suc k) / real d * ?p ^ (k + 1)"
  proof -
    have "?s + w \<le> real k / real d * ?p ^ (k + 1) + ?p / real d"
      using su w(2) by simp
    also have "\<dots> \<le> real k / real d * ?p ^ (k + 1) + ?p ^ (k + 1) / real d"
      using pk rd by (intro add_mono divide_right_mono) simp_all
    also have "\<dots> = real (Suc k) / real d * ?p ^ (k + 1)"
      by (rule Suc_fraction [symmetric])
    finally show ?thesis .
  qed
  have lox: "lo \<le> ?s + w"
  proof -
    have "lo \<le> ?q / real d" using lod rd by (simp add: field_simps)
    also have "\<dots> \<le> w" by (rule w(1))
    also have "\<dots> \<le> ?s + w" using s0 by simp
    finally show ?thesis .
  qed
  have xhi: "?s + w \<le> hi"
  proof -
    have f1: "real (Suc k) / real d \<le> 1" using k1 rd by simp
    have "real (Suc k) / real d * ?p ^ (k + 1) \<le> 1 * ?p ^ (k + 1)"
      using f1 p1 by (intro mult_right_mono) simp_all
    also have "\<dots> \<le> ?p ^ (d + 1)"
      using p1 kd by (simp add: power_increasing)
    finally show ?thesis using xu hi by linarith
  qed
  from rnd lox xhi have r: "\<bar>rnd (?s + w) - (?s + w)\<bar> \<le> u * (?s + w)" by blast
  have x0: "0 \<le> ?s + w" using lox lo by linarith
  have upper: "rnd (?s + w) \<le> real (Suc k) / real d * ?p ^ (Suc k + 1)"
  proof -
    from r have "rnd (?s + w) \<le> ?p * (?s + w)" by (simp add: algebra_simps abs_le_iff)
    also have "\<dots> \<le> ?p * (real (Suc k) / real d * ?p ^ (k + 1))"
      using xu p1 by (intro mult_left_mono) simp_all
    also have "\<dots> = real (Suc k) / real d * ?p ^ (Suc k + 1)" by simp
    finally show ?thesis .
  qed
  have lower: "real (Suc k) / real d * ?q ^ (Suc k + 1) \<le> rnd (?s + w)"
  proof -
    have "real (Suc k) / real d * ?q ^ (Suc k + 1) = ?q * (real (Suc k) / real d * ?q ^ (k + 1))"
      by simp
    also have "\<dots> \<le> ?q * (?s + w)"
      using xl q0 by (intro mult_left_mono) simp_all
    also from r have "\<dots> \<le> rnd (?s + w)" by (simp add: algebra_simps abs_le_iff)
    finally show ?thesis .
  qed
  from lower upper show ?case by simp
qed

lemma rounded_weight_bounds:
  fixes u lo hi :: real and rnd :: "real \<Rightarrow> real" and d :: nat
  assumes u: "0 \<le> u" "u \<le> 1" and lo: "0 < lo"
    and rnd: "\<forall>x. lo \<le> x \<and> x \<le> hi \<longrightarrow> \<bar>rnd x - x\<bar> \<le> u * x"
    and d: "0 < d" and lod: "lo * real d \<le> 1 - u" and hi: "(1 + u) ^ (d + 1) \<le> hi"
  shows "(1 - u) / real d \<le> rnd (1 / real d)" and "rnd (1 / real d) \<le> (1 + u) / real d"
proof -
  from d have rd: "0 < real d" by simp
  have "lo * real d \<le> 1" using lod u by linarith
  then have l: "lo \<le> 1 / real d" using rd by (simp add: field_simps)
  have "1 / real d \<le> 1" using d by simp
  also have "\<dots> \<le> (1 + u) ^ (d + 1)" using u by (intro one_le_power) simp
  finally have h: "1 / real d \<le> hi" using hi by linarith
  from rnd l h have r: "\<bar>rnd (1 / real d) - 1 / real d\<bar> \<le> u * (1 / real d)" by blast
  from r show "(1 - u) / real d \<le> rnd (1 / real d)"
    by (simp add: algebra_simps abs_le_iff diff_divide_distrib)
  from r show "rnd (1 / real d) \<le> (1 + u) / real d"
    by (simp add: algebra_simps abs_le_iff add_divide_distrib)
qed

lemma roundResult_identity: "roundResult (\<lambda>x. x) x = x"
  by (cases x) (simp_all add: roundResult_def)

lemma generateNormalizedTransitionMatrixRounded_identity:
  "generateNormalizedTransitionMatrixRounded (\<lambda>x. x) edges parameters =
     generateNormalizedTransitionMatrixFromFile edges parameters"
  by (simp add: generateNormalizedTransitionMatrixRounded_def
      generateNormalizedTransitionMatrixFromFile_def normalizeRowsRounded_def normalizeRows_def
      ddivRounded_def roundResult_identity)

lemma csrColumnSumRounded_identity: "csrColumnSumRounded (\<lambda>x. x) m c = csrColumnSum m c"
  by (simp add: csrColumnSumRounded_def csrColumnSum_def daddRounded_def roundResult_identity
      cong: if_cong)

lemma normalizeRowsRounded_elements:
  assumes "cooSize m = length (elements m)"
  shows "elements (normalizeRowsRounded rnd m deg) =
         map (\<lambda>e. e\<lparr>elementValue :=
                      ddivRounded rnd (Finite 1) (double_of_nat (deg ! rowIndex e))\<rparr>)
           (elements m)"
  using map_nth_function
    [of "\<lambda>e. e\<lparr>elementValue :=
                 ddivRounded rnd (Finite 1) (double_of_nat (deg ! rowIndex e))\<rparr>"
        "elements m"] assms
  by (simp add: normalizeRowsRounded_def)

lemma transposed_elements_rounded:
  "elements (transposeSparseMatrix (normalizeRowsRounded rnd (readEdges edges) deg)) =
     map (\<lambda>e. \<lparr>elementValue = ddivRounded rnd (Finite 1) (double_of_nat (deg ! fst e)),
                rowIndex = snd e, columnIndex = fst e\<rparr>) edges"
  by (simp add: transposeSparseMatrix_def normalizeRowsRounded_elements readEdges_elements
      edgeElement_def comp_def)

lemma csrColumnSumRounded_transformToCSR:
  "csrColumnSumRounded rnd (transformToCSR m n) c =
     fold (\<lambda>e acc. if columnIndex e = c then daddRounded rnd acc (elementValue e) else acc)
       (concat (map (rowElements m) [0..<n])) (Finite 0)"
proof -
  let ?sorted = "concat (map (rowElements m) [0..<n])"
  let ?g = "\<lambda>e acc. if columnIndex e = c then daddRounded rnd acc (elementValue e) else acc"
  have "csrColumnSumRounded rnd (transformToCSR m n) c =
        fold (\<lambda>j acc. if map columnIndex ?sorted ! j = c
                       then daddRounded rnd acc (map elementValue ?sorted ! j) else acc)
          [0..<length ?sorted] (Finite 0)"
    by (simp add: csrColumnSumRounded_def transformToCSR_def Let_def cong: if_cong)
  also have "\<dots> = fold (\<lambda>j. ?g (?sorted ! j)) [0..<length ?sorted] (Finite 0)"
    by (rule fold_cong) (simp_all cong: if_cong)
  also have "\<dots> = fold ?g ?sorted (Finite 0)"
    by (rule fold_nth_function)
  finally show ?thesis .
qed

lemma fold_rounded_constant:
  assumes "\<forall>e\<in>set xs. P e \<longrightarrow> elementValue e = Finite w"
  shows "fold (\<lambda>e acc. if P e then daddRounded rnd acc (elementValue e) else acc) xs (Finite a) =
         Finite (((\<lambda>s. rnd (s + w)) ^^ length (filter P xs)) a)"
  using assms
proof (induction xs arbitrary: a)
  case Nil
  show ?case by simp
next
  case (Cons x xs)
  let ?f = "\<lambda>s. rnd (s + w)"
  let ?g = "\<lambda>e acc. if P e then daddRounded rnd acc (elementValue e) else acc"
  from Cons.prems have xs: "\<forall>e\<in>set xs. P e \<longrightarrow> elementValue e = Finite w" by simp
  show ?case
  proof (cases "P x")
    case True
    with Cons.prems have "elementValue x = Finite w" by simp
    with True have "fold ?g (x # xs) (Finite a) = fold ?g xs (Finite (?f a))"
      by (simp add: daddRounded_def roundResult_def)
    also have "\<dots> = Finite ((?f ^^ length (filter P xs)) (?f a))"
      by (rule Cons.IH [OF xs])
    also have "(?f ^^ length (filter P xs)) (?f a) = ?f ((?f ^^ length (filter P xs)) a)"
      by (rule funpow_swap1 [symmetric])
    finally show ?thesis using True by simp
  next
    case False
    with Cons.IH [OF xs, of a] show ?thesis by simp
  qed
qed

lemma fork_column_sum:
  "csrColumnSumRounded exampleRounding
     (fst (generateNormalizedTransitionMatrixRounded exampleRounding forkEdges exampleInput)) 0 =
   Finite (2050401 / 2000000)"
  by code_simp

lemma fork_outDegree: "outDegree forkEdges 0 = 2"
  by (simp add: outDegree_def forkEdges_def)

text \<open>
  Claim C9, amended. The entries are weighted by the reciprocal of the out-degree of the
  source page, and after the transposition the source page is the column: right after
  the construction, the stored entries of the column of every page that has an outgoing
  link sum to \<open>1\<close> up to epsilon. With a rounding of relative error at most \<open>u\<close> on
  results between \<open>lo\<close> and \<open>hi\<close> (the unit roundoff and the normal range of the
  doubles), for a page of out-degree \<open>d\<close> the rounded quotients \<open>1/d\<close>, summed with
  rounded additions, give a sum between \<open>(1 - u)\<^bsup>d+1\<^esup>\<close> and \<open>(1 + u)\<^bsup>d+1\<^esup>\<close>.
\<close>

theorem transition_matrix_column_sums:
  assumes c: "c \<in> fst ` set edges"
    and u: "0 \<le> u" "u \<le> 1" and lo: "0 < lo"
    and rnd: "\<forall>x. lo \<le> x \<and> x \<le> hi \<longrightarrow> \<bar>rnd x - x\<bar> \<le> u * x"
    and lod: "lo * real (outDegree edges c) \<le> 1 - u"
    and hi: "(1 + u) ^ (outDegree edges c + 1) \<le> hi"
  shows "\<exists>s. csrColumnSumRounded rnd
               (fst (generateNormalizedTransitionMatrixRounded rnd edges parameters)) c =
               Finite s \<and>
             (1 - u) ^ (outDegree edges c + 1) \<le> s \<and> s \<le> (1 + u) ^ (outDegree edges c + 1)"
proof -
  let ?n = "maxPageIndex edges + 1"
  let ?deg = "pageOutdegree (readEdges edges) (length edges) ?n"
  let ?m = "transposeSparseMatrix (normalizeRowsRounded rnd (readEdges edges) ?deg)"
  let ?d = "outDegree edges c"
  let ?w = "rnd (1 / real ?d)"
  let ?f = "\<lambda>s. rnd (s + ?w)"
  let ?P = "\<lambda>e. columnIndex e = c"
  let ?sorted = "concat (map (rowElements ?m) [0..<?n])"
  from c have cm: "c \<le> maxPageIndex edges"
    by (auto dest: maxPageIndex_ge)
  from c have d: "0 < ?d"
    by (auto simp: outDegree_def length_greater_0_conv filter_empty_conv)
  have deg: "?deg ! c = ?d"
    unfolding outDegree_def by (rule pageOutdegree_edges [OF cm])
  have els: "elements ?m =
     map (\<lambda>e. \<lparr>elementValue = ddivRounded rnd (Finite 1) (double_of_nat (?deg ! fst e)),
                rowIndex = snd e, columnIndex = fst e\<rparr>) edges"
    by (rule transposed_elements_rounded)
  have val: "\<forall>e\<in>set ?sorted. ?P e \<longrightarrow> elementValue e = Finite ?w"
  proof (intro ballI impI)
    fix e assume "e \<in> set ?sorted" and p: "columnIndex e = c"
    then have "e \<in> set (elements ?m)" by (auto simp: rowElements_def)
    with p els deg d show "elementValue e = Finite ?w"
      by (auto simp: double_of_nat_def ddivRounded_def roundResult_def)
  qed
  have rows: "\<forall>e\<in>set (elements ?m). rowIndex e < ?n"
    unfolding els using maxPageIndex_ge(2) by (auto simp: less_Suc_eq_le)
  have "length (filter ?P ?sorted) =
        length (filter (\<lambda>e. ?P e \<and> rowIndex e < ?n) (elements ?m))"
    unfolding rowElements_def by (rule length_filter_rows)
  also have "\<dots> = length (filter ?P (elements ?m))"
    using rows by (intro arg_cong [where f = length] filter_cong) auto
  also have "\<dots> = ?d"
    unfolding els outDegree_def by (simp add: filter_map comp_def)
  finally have count: "length (filter ?P ?sorted) = ?d" .
  have "csrColumnSumRounded rnd
          (fst (generateNormalizedTransitionMatrixRounded rnd edges parameters)) c =
        fold (\<lambda>e acc. if ?P e then daddRounded rnd acc (elementValue e) else acc) ?sorted
          (Finite 0)"
    by (simp add: generateNormalizedTransitionMatrixRounded_def Let_def
        csrColumnSumRounded_transformToCSR)
  also have "\<dots> = Finite ((?f ^^ length (filter ?P ?sorted)) 0)"
    by (rule fold_rounded_constant [OF val])
  finally have sum: "csrColumnSumRounded rnd
          (fst (generateNormalizedTransitionMatrixRounded rnd edges parameters)) c =
        Finite ((?f ^^ ?d) 0)"
    unfolding count .
  note w = rounded_weight_bounds [OF u lo rnd d lod hi]
  from rounded_sum_bounds [OF u lo rnd d lod hi w order_refl] d
  have "(1 - u) ^ (?d + 1) \<le> (?f ^^ ?d) 0" and "(?f ^^ ?d) 0 \<le> (1 + u) ^ (?d + 1)"
    by simp_all
  with sum show ?thesis by blast
qed

theorem transition_matrix_column_sums_witness:
  "(0::nat) \<in> fst ` set forkEdges \<and> outDegree forkEdges 0 = 2 \<and>
   csrColumnSumRounded exampleRounding
     (fst (generateNormalizedTransitionMatrixRounded exampleRounding forkEdges exampleInput)) 0 =
     Finite (2050401 / 2000000) \<and>
   (1 - 1 / 100) ^ 3 \<le> (2050401 / 2000000 :: real) \<and>
   (2050401 / 2000000 :: real) \<le> (1 + 1 / 100) ^ 3"
proof -
  have c: "(0::nat) \<in> fst ` set forkEdges" by (simp add: forkEdges_def)
  have r: "\<forall>x. 1 / 100 \<le> x \<and> x \<le> 2 \<longrightarrow> \<bar>exampleRounding x - x\<bar> \<le> 1 / 100 * x"
    by (simp add: exampleRounding_def)
  have l: "1 / 100 * real (outDegree forkEdges 0) \<le> 1 - 1 / 100"
    by (simp add: fork_outDegree)
  have h: "(1 + 1 / 100) ^ (outDegree forkEdges 0 + 1) \<le> (2::real)"
    by (simp add: fork_outDegree power3_eq_cube)
  from transition_matrix_column_sums [OF c _ _ _ r l h, of exampleInput]
  obtain s where "csrColumnSumRounded exampleRounding
       (fst (generateNormalizedTransitionMatrixRounded exampleRounding forkEdges exampleInput)) 0 =
       Finite s"
    and "(1 - 1 / 100) ^ (outDegree forkEdges 0 + 1) \<le> s"
    and "s \<le> (1 + 1 / 100) ^ (outDegree forkEdges 0 + 1)"
    by auto
  with c show ?thesis
    by (simp add: fork_column_sum fork_outDegree)
qed

end
